theory Spec2Isabelle
  imports Main
begin

section \<open>Data model\<close>

text \<open>
  The mention backend of \<^verbatim>\<open>server/services/notify/notifymentions/mentions_backend.go\<close>
  and the plugin delivery of \<^verbatim>\<open>server/services/notify/plugindelivery/mention_deliver.go\<close>.

  The declarations of \<^verbatim>\<open>notify.BlockChangeEvent\<close>, \<^verbatim>\<open>model.Board\<close>, \<^verbatim>\<open>model.Block\<close>,
  \<^verbatim>\<open>model.BoardMember\<close> and of the block, board and permission constants are not part of
  the two source files.  Modelled from the spec: the change event carries a nullable board,
  a nullable card, the changed block, a nullable prior version of the block, a nullable
  acting member, the team id and the action; a block kind is one of text, comment, image
  or something else; a board is open or private.  The changed block is always there, as
  the spec has it, so reading its kind at line 104 cannot fail; the board, the card, the
  prior block and the acting member are pointers that may be nil.

  The mutex of the backend guards the list of listeners against other goroutines; one
  call of \<^verbatim>\<open>BlockChanged\<close> is modelled, and \<^verbatim>\<open>AddListener\<close> and \<^verbatim>\<open>RemoveListener\<close>, which
  none of the properties below is about, are left out.
\<close>

datatype Action = Add | Update | Delete

datatype BlockType = TypeText | TypeComment | TypeImage | TypeOther

datatype BoardType = BoardTypeOpen | BoardTypePrivate

datatype Permission = PermissionViewTeam | PermissionViewBoard

record Board =
  Board_ID :: string
  Board_TeamID :: string
  Board_Type :: BoardType

record Block =
  Block_ID :: string
  Block_Title :: string
  Block_Type :: BlockType

record BoardMember =
  UserID :: string
  BoardID :: string
  SchemeAdmin :: bool
  SchemeEditor :: bool
  SchemeCommenter :: bool
  SchemeViewer :: bool

record User =
  User_Id :: string
  Username :: string

record Channel =
  Channel_Id :: string

record Post =
  Post_UserId :: string
  Post_ChannelId :: string
  Post_Message :: string

record BlockChangeEvent =
  ev_Action :: Action
  ev_TeamID :: string
  ev_Board :: "Board option"
  ev_Card :: "Block option"
  ev_BlockChanged :: Block
  ev_BlockOld :: "Block option"
  ev_ModifiedBy :: "BoardMember option"

subsection \<open>Errors\<close>

text \<open>
  A Go \<^verbatim>\<open>error\<close> is the sentinel \<^verbatim>\<open>ErrMentionPermission\<close>, an error made by a
  collaborator, or \<^verbatim>\<open>fmt.Errorf(".. %w", err)\<close>: a message around a wrapped error.
  A nil error is \<open>None\<close> of \<open>error option\<close>.  \<open>errors_Is\<close> follows the chain of
  wrapped errors as \<^verbatim>\<open>errors.Is\<close> does.
\<close>

datatype error = ErrMentionPermission | External string | Errorf string error

fun errors_Is :: "error \<Rightarrow> error \<Rightarrow> bool" where
  "errors_Is (Errorf msg inner) target = (Errorf msg inner = target \<or> errors_Is inner target)"
| "errors_Is e target = (e = target)"

text \<open>\<^verbatim>\<open>merror.New()\<close>, \<^verbatim>\<open>Append\<close> and \<^verbatim>\<open>ErrorOrNil\<close>: the collected errors in order.\<close>

type_synonym merror = "error list"

definition merror_New :: merror where
  "merror_New = []"

definition merror_Append :: "merror \<Rightarrow> error \<Rightarrow> merror" where
  "merror_Append merr e = merr @ [e]"

definition ErrorOrNil :: "merror \<Rightarrow> merror option" where
  "ErrorOrNil merr = (if merr = [] then None else Some merr)"

text \<open>A call either returns or panics (a nil pointer dereference, a faulting listener).\<close>

datatype 'a outcome = Returns 'a | Panics string

definition nil_dereference :: string where
  "nil_dereference = ''invalid memory address or nil pointer dereference''"

subsection \<open>Effects\<close>

text \<open>
  Every call of a collaborator is written to a log, in order, so that a claim of the form
  "no delivery is attempted" or "exactly one broadcast" is a statement about the log.
  The two store operations are logged with what they returned.
\<close>

datatype LogLevel = LvlDebug | LvlError

datatype effect =
    EUserByUsername string
  | EHasPermissionToTeam string string Permission
  | EHasPermissionToBoard string string Permission
  | EGetMemberForBoard string string "BoardMember option \<times> error option"
  | ESaveMember BoardMember "BoardMember option \<times> error option"
  | EBroadcastMemberChange string string "BoardMember option"
  | EMentionDeliver User string BlockChangeEvent
  | EOnMention nat string BlockChangeEvent
  | ELog LogLevel string

text \<open>
  The world is the state \<open>'s\<close> of everything outside the backend (store, permissions,
  chat server, listeners) together with the log.  A collaborator is a function of its
  arguments and \<open>'s\<close> that returns its result and the next \<open>'s\<close>.
\<close>

type_synonym 's world = "'s \<times> effect list"

definition emit :: "effect \<Rightarrow> 's world \<Rightarrow> 's world" where
  "emit e w = (fst w, snd w @ [e])"

subsection \<open>Collaborator interfaces\<close>

record 's Store =
  GetMemberForBoard :: "string \<Rightarrow> string \<Rightarrow> 's \<Rightarrow> (BoardMember option \<times> error option) \<times> 's"
  SaveMember :: "BoardMember \<Rightarrow> 's \<Rightarrow> (BoardMember option \<times> error option) \<times> 's"
  Store_IsErrNotFound :: "error option \<Rightarrow> bool"

record 's PermissionsService =
  HasPermissionToTeam :: "string \<Rightarrow> string \<Rightarrow> Permission \<Rightarrow> 's \<Rightarrow> bool \<times> 's"
  HasPermissionToBoard :: "string \<Rightarrow> string \<Rightarrow> Permission \<Rightarrow> 's \<Rightarrow> bool \<times> 's"

record 's MentionDelivery =
  UserByUsername :: "string \<Rightarrow> 's \<Rightarrow> (error + User) \<times> 's"
  MentionDeliver :: "User \<Rightarrow> string \<Rightarrow> BlockChangeEvent \<Rightarrow> 's
                       \<Rightarrow> (string \<times> error option) outcome \<times> 's"
  Delivery_IsErrNotFound :: "error option \<Rightarrow> bool"

record 's Adapter =
  BroadcastMemberChange :: "string \<Rightarrow> string \<Rightarrow> BoardMember option \<Rightarrow> 's \<Rightarrow> 's"

type_synonym 's MentionListener = "string \<Rightarrow> BlockChangeEvent \<Rightarrow> 's \<Rightarrow> unit outcome \<times> 's"

record 's Backend =
  store :: "'s Store"
  permissions :: "'s PermissionsService"
  delivery :: "'s MentionDelivery"
  wsAdapter :: "'s Adapter"
  listeners :: "'s MentionListener list"

text \<open>
  The package functions \<^verbatim>\<open>extractMentions\<close>, \<^verbatim>\<open>extractText\<close> and \<^verbatim>\<open>newLimits\<close> are
  not in the source files; they are parameters.  Modelled from the spec:
  \<^verbatim>\<open>extractMentions(text)\<close> gives the set of usernames of a text, here the keys of the Go
  map in the order the \<^verbatim>\<open>range\<close> loop meets them, and an absent block gives none.
\<close>

record limits =
  limit_before :: nat
  limit_after :: nat

record Package =
  mentionsOfText :: "string \<Rightarrow> string list"
  extractText :: "string \<Rightarrow> string \<Rightarrow> limits \<Rightarrow> string"
  newLimits :: limits

definition extractMentions :: "Package \<Rightarrow> Block option \<Rightarrow> string list" where
  "extractMentions pkg block =
     (case block of None \<Rightarrow> [] | Some blk \<Rightarrow> mentionsOfText pkg (Block_Title blk))"

section \<open>The backend\<close>

subsection \<open>Calls of the collaborators, logged\<close>

definition logger_Debug :: "string \<Rightarrow> 's world \<Rightarrow> 's world" where
  "logger_Debug msg w = emit (ELog LvlDebug msg) w"

definition logger_Error :: "string \<Rightarrow> 's world \<Rightarrow> 's world" where
  "logger_Error msg w = emit (ELog LvlError msg) w"

definition call_UserByUsername ::
  "'s Backend \<Rightarrow> string \<Rightarrow> 's world \<Rightarrow> (error + User) \<times> 's world" where
  "call_UserByUsername b username w =
     (case UserByUsername (delivery b) username (fst w) of
        (r, s') \<Rightarrow> (r, emit (EUserByUsername username) (s', snd w)))"

definition call_HasPermissionToTeam ::
  "'s Backend \<Rightarrow> string \<Rightarrow> string \<Rightarrow> Permission \<Rightarrow> 's world \<Rightarrow> bool \<times> 's world" where
  "call_HasPermissionToTeam b userID teamID perm w =
     (case HasPermissionToTeam (permissions b) userID teamID perm (fst w) of
        (r, s') \<Rightarrow> (r, emit (EHasPermissionToTeam userID teamID perm) (s', snd w)))"

definition call_HasPermissionToBoard ::
  "'s Backend \<Rightarrow> string \<Rightarrow> string \<Rightarrow> Permission \<Rightarrow> 's world \<Rightarrow> bool \<times> 's world" where
  "call_HasPermissionToBoard b userID boardID perm w =
     (case HasPermissionToBoard (permissions b) userID boardID perm (fst w) of
        (r, s') \<Rightarrow> (r, emit (EHasPermissionToBoard userID boardID perm) (s', snd w)))"

definition call_GetMemberForBoard ::
  "'s Backend \<Rightarrow> string \<Rightarrow> string \<Rightarrow> 's world
     \<Rightarrow> (BoardMember option \<times> error option) \<times> 's world" where
  "call_GetMemberForBoard b boardID userID w =
     (case GetMemberForBoard (store b) boardID userID (fst w) of
        (r, s') \<Rightarrow> (r, emit (EGetMemberForBoard boardID userID r) (s', snd w)))"

definition call_SaveMember ::
  "'s Backend \<Rightarrow> BoardMember \<Rightarrow> 's world \<Rightarrow> (BoardMember option \<times> error option) \<times> 's world" where
  "call_SaveMember b bm w =
     (case SaveMember (store b) bm (fst w) of
        (r, s') \<Rightarrow> (r, emit (ESaveMember bm r) (s', snd w)))"

definition call_BroadcastMemberChange ::
  "'s Backend \<Rightarrow> string \<Rightarrow> string \<Rightarrow> BoardMember option \<Rightarrow> 's world \<Rightarrow> 's world" where
  "call_BroadcastMemberChange b teamID boardID member w =
     emit (EBroadcastMemberChange teamID boardID member)
       (BroadcastMemberChange (wsAdapter b) teamID boardID member (fst w), snd w)"

definition call_MentionDeliver ::
  "'s Backend \<Rightarrow> User \<Rightarrow> string \<Rightarrow> BlockChangeEvent \<Rightarrow> 's world
     \<Rightarrow> (string \<times> error option) outcome \<times> 's world" where
  "call_MentionDeliver b mentionedUser extract evt w =
     (case MentionDeliver (delivery b) mentionedUser extract evt (fst w) of
        (r, s') \<Rightarrow> (r, emit (EMentionDeliver mentionedUser extract evt) (s', snd w)))"

subsection \<open>\<^verbatim>\<open>deliverMentionNotification\<close>\<close>

text \<open>
  Lines 187 to 211: add the mentioned user to the board if not already a member.  The result
  is the error of the early return of line 197, if any.
\<close>

definition addMentionedUserToBoard ::
  "'s Backend \<Rightarrow> User \<Rightarrow> Board \<Rightarrow> BlockChangeEvent \<Rightarrow> 's world \<Rightarrow> error option \<times> 's world" where
  "addMentionedUserToBoard b mentionedUser board evt w =
     (case call_GetMemberForBoard b (Board_ID board) (User_Id mentionedUser) w of
        ((member, err), w1) \<Rightarrow>
          if member = None \<or> Store_IsErrNotFound (store b) err then
            (let newBoardMember = \<lparr>UserID = User_Id mentionedUser, BoardID = Board_ID board,
                    SchemeAdmin = False, SchemeEditor = True,
                    SchemeCommenter = False, SchemeViewer = False\<rparr>
             in case call_SaveMember b newBoardMember w1 of
                  ((member', Some err'), w2) \<Rightarrow>
                    (Some (Errorf (''cannot add mentioned user '' @ User_Id mentionedUser
                                     @ '' to board '' @ Board_ID board @ '': '') err'), w2)
                | ((member', None), w2) \<Rightarrow>
                    (None, call_BroadcastMemberChange b (ev_TeamID evt) (Board_ID board) member'
                             (logger_Debug ''auto-added mentioned user to board'' w2)))
          else
            (None, logger_Debug ''skipping auto-add mentioned user to board; already a member'' w1))"

text \<open>Lines 182 to 220: the rules of an open board.\<close>

definition openBoardRules ::
  "'s Backend \<Rightarrow> User \<Rightarrow> BoardMember \<Rightarrow> Board \<Rightarrow> BlockChangeEvent \<Rightarrow> 's world
     \<Rightarrow> error option \<times> 's world" where
  "openBoardRules b mentionedUser modifiedBy board evt w =
     (if SchemeAdmin modifiedBy \<or> SchemeEditor modifiedBy \<or> SchemeCommenter modifiedBy then
        (case call_HasPermissionToTeam b (User_Id mentionedUser) (ev_TeamID evt) PermissionViewTeam w of
           (False, w1) \<Rightarrow>
             (Some (Errorf (UserID modifiedBy @ '' cannot mention non-team member ''
                              @ User_Id mentionedUser @ '' : '') ErrMentionPermission), w1)
         | (True, w1) \<Rightarrow> addMentionedUserToBoard b mentionedUser board evt w1)
      else if SchemeViewer modifiedBy then
        (Some (Errorf (UserID modifiedBy @ '' (viewer) cannot mention user ''
                         @ User_Id mentionedUser @ '': '') ErrMentionPermission), w)
      else
        (case call_HasPermissionToBoard b (User_Id mentionedUser) (Board_ID board) PermissionViewBoard w of
           (False, w1) \<Rightarrow>
             (Some (Errorf (UserID modifiedBy @ '' cannot mention non-board member ''
                              @ User_Id mentionedUser @ '' : '') ErrMentionPermission), w1)
         | (True, w1) \<Rightarrow> (None, w1)))"

text \<open>Lines 224 to 233: the rules of a private board.\<close>

definition privateBoardRules ::
  "'s Backend \<Rightarrow> User \<Rightarrow> BoardMember \<Rightarrow> Board \<Rightarrow> BlockChangeEvent \<Rightarrow> 's world
     \<Rightarrow> error option \<times> 's world" where
  "privateBoardRules b mentionedUser modifiedBy board evt w =
     (if SchemeViewer modifiedBy then
        (Some (Errorf (UserID modifiedBy @ '' (viewer) cannot mention user ''
                         @ User_Id mentionedUser @ '': '') ErrMentionPermission), w)
      else
        (case call_HasPermissionToBoard b (User_Id mentionedUser) (Board_ID board) PermissionViewBoard w of
           (False, w1) \<Rightarrow>
             (Some (Errorf (UserID modifiedBy @ '' cannot mention non-board member ''
                              @ User_Id mentionedUser @ '' : '') ErrMentionPermission), w1)
         | (True, w1) \<Rightarrow> (None, w1)))"

text \<open>
  \<^verbatim>\<open>evt.Board\<close> is dereferenced at line 178 without a nil check of its own: an absent
  board there is a panic.
\<close>

definition deliverMentionNotification ::
  "'s Backend \<Rightarrow> string \<Rightarrow> string \<Rightarrow> BlockChangeEvent \<Rightarrow> 's world
     \<Rightarrow> (string \<times> error option) outcome \<times> 's world" where
  "deliverMentionNotification b username extract evt w =
     (case call_UserByUsername b username w of
        (Inl err, w1) \<Rightarrow>
          if Delivery_IsErrNotFound (delivery b) (Some err) then (Returns ('''', None), w1)
          else (Returns ('''', Some (Errorf ''cannot lookup mentioned user: '' err)), w1)
      | (Inr mentionedUser, w1) \<Rightarrow>
          (case ev_ModifiedBy evt of
             None \<Rightarrow>
               (Returns ('''', Some (Errorf ''invalid user cannot mention: '' ErrMentionPermission)), w1)
           | Some modifiedBy \<Rightarrow>
               (case ev_Board evt of
                  None \<Rightarrow> (Panics nil_dereference, w1)
                | Some board \<Rightarrow>
                    (case (if Board_Type board = BoardTypeOpen
                           then openBoardRules b mentionedUser modifiedBy board evt w1
                           else privateBoardRules b mentionedUser modifiedBy board evt w1) of
                       (Some err, w2) \<Rightarrow> (Returns ('''', Some err), w2)
                     | (None, w2) \<Rightarrow> call_MentionDeliver b mentionedUser extract evt w2))))"

subsection \<open>\<^verbatim>\<open>BlockChanged\<close>\<close>

text \<open>
  \<^verbatim>\<open>safeCallListener\<close>: the deferred \<^verbatim>\<open>recover\<close> turns a panic of the listener into an
  error line of the log.  The number is the listener's place in the snapshot.
\<close>

definition safeCallListener ::
  "nat \<Rightarrow> 's MentionListener \<Rightarrow> string \<Rightarrow> BlockChangeEvent \<Rightarrow> 's world \<Rightarrow> 's world" where
  "safeCallListener i listener userID evt w =
     (case listener userID evt (fst w) of
        (Returns u, s') \<Rightarrow> emit (EOnMention i userID evt) (s', snd w)
      | (Panics r, s') \<Rightarrow>
          logger_Error ''panic calling @mention notification listener''
            (emit (EOnMention i userID evt) (s', snd w)))"

text \<open>Lines 146 to 148: the loop over the snapshot of the listeners.\<close>

fun callListeners ::
  "nat \<Rightarrow> 's MentionListener list \<Rightarrow> string \<Rightarrow> BlockChangeEvent \<Rightarrow> 's world \<Rightarrow> 's world" where
  "callListeners i [] userID evt w = w"
| "callListeners i (listener # rest) userID evt w =
     callListeners (Suc i) rest userID evt (safeCallListener i listener userID evt w)"

text \<open>
  Lines 123 to 149: the loop over the usernames of the new text.  A panic of the delivery
  is not recovered and ends the loop.
\<close>

fun mentionLoop ::
  "Package \<Rightarrow> 's Backend \<Rightarrow> BlockChangeEvent \<Rightarrow> 's MentionListener list \<Rightarrow> string list
     \<Rightarrow> string list \<Rightarrow> merror \<Rightarrow> 's world \<Rightarrow> merror outcome \<times> 's world" where
  "mentionLoop pkg b evt ls oldMentions [] merr w = (Returns merr, w)"
| "mentionLoop pkg b evt ls oldMentions (username # rest) merr w =
     (if username \<in> set oldMentions then mentionLoop pkg b evt ls oldMentions rest merr w
      else
        (let extract = extractText pkg (Block_Title (ev_BlockChanged evt)) username (newLimits pkg)
         in case deliverMentionNotification b username extract evt w of
              (Panics r, w1) \<Rightarrow> (Panics r, w1)
            | (Returns (userID, err), w1) \<Rightarrow>
                (let merr1 = (case err of
                                None \<Rightarrow> merr
                              | Some e \<Rightarrow> merror_Append merr
                                   (Errorf (''cannot deliver notification for @'' @ username @ '': '') e))
                 in if userID = [] then mentionLoop pkg b evt ls oldMentions rest merr1 w1
                    else mentionLoop pkg b evt ls oldMentions rest merr1
                           (callListeners 0 ls userID evt
                              (logger_Debug ''Mention notification delivered'' w1)))))"

text \<open>
  \<^verbatim>\<open>BlockChanged\<close>.  The read lock only guards the copy of the listeners; the copy is the
  list \<open>listeners b\<close> itself, since a value cannot change under the loop.
\<close>

definition BlockChanged ::
  "Package \<Rightarrow> 's Backend \<Rightarrow> BlockChangeEvent \<Rightarrow> 's world \<Rightarrow> merror option outcome \<times> 's world" where
  "BlockChanged pkg b evt w =
     (if ev_Board evt = None \<or> ev_Card evt = None then (Returns None, w)
      else if ev_Action evt = Delete then (Returns None, w)
      else if Block_Type (ev_BlockChanged evt) \<noteq> TypeText
              \<and> Block_Type (ev_BlockChanged evt) \<noteq> TypeComment
              \<and> Block_Type (ev_BlockChanged evt) \<noteq> TypeImage then (Returns None, w)
      else
        (let mentions = extractMentions pkg (Some (ev_BlockChanged evt))
         in if length mentions = 0 then (Returns None, w)
            else
              (let oldMentions = extractMentions pkg (ev_BlockOld evt);
                   merr = merror_New;
                   ls = listeners b
               in case mentionLoop pkg b evt ls oldMentions mentions merr w of
                    (Panics r, w') \<Rightarrow> (Panics r, w')
                  | (Returns merr', w') \<Rightarrow> (Returns (ErrorOrNil merr'), w'))))"

subsection \<open>\<^verbatim>\<open>PluginDelivery.MentionDeliver\<close>\<close>

text \<open>
  The plugin API, \<^verbatim>\<open>utils.MakeCardLink\<close> and \<^verbatim>\<open>formatMessage\<close> are not in the source
  files; they are parameters.  \<^verbatim>\<open>evt.ModifiedBy\<close>, \<^verbatim>\<open>evt.Board\<close> and \<^verbatim>\<open>evt.Card\<close> are
  dereferenced without a check.
\<close>

record 's PluginAPI =
  GetUserByID :: "string \<Rightarrow> 's \<Rightarrow> (error + User) \<times> 's"
  GetDirectChannel :: "string \<Rightarrow> string \<Rightarrow> 's \<Rightarrow> (error + Channel) \<times> 's"
  CreatePost :: "Post \<Rightarrow> 's \<Rightarrow> error option \<times> 's"

record 's PluginDelivery =
  api :: "'s PluginAPI"
  botID :: string
  serverRoot :: string
  MakeCardLink :: "string \<Rightarrow> string \<Rightarrow> string \<Rightarrow> string \<Rightarrow> string"
  formatMessage :: "string \<Rightarrow> string \<Rightarrow> string \<Rightarrow> string \<Rightarrow> Block \<Rightarrow> string"

definition PluginDelivery_MentionDeliver ::
  "'s PluginDelivery \<Rightarrow> User \<Rightarrow> string \<Rightarrow> BlockChangeEvent \<Rightarrow> 's
     \<Rightarrow> (string \<times> error option) outcome \<times> 's" where
  "PluginDelivery_MentionDeliver pd mentionedUser extract evt s =
     (case ev_ModifiedBy evt of
        None \<Rightarrow> (Panics nil_dereference, s)
      | Some modifiedBy \<Rightarrow>
          (case GetUserByID (api pd) (UserID modifiedBy) s of
             (Inl err, s1) \<Rightarrow> (Returns ('''', Some (Errorf ''cannot find user: '' err)), s1)
           | (Inr author, s1) \<Rightarrow>
               (case GetDirectChannel (api pd) (User_Id mentionedUser) (botID pd) s1 of
                  (Inl err, s2) \<Rightarrow>
                    (Returns ('''', Some (Errorf ''cannot get direct channel: '' err)), s2)
                | (Inr channel, s2) \<Rightarrow>
                    (case ev_Board evt of
                       None \<Rightarrow> (Panics nil_dereference, s2)
                     | Some board \<Rightarrow>
                         (case ev_Card evt of
                            None \<Rightarrow> (Panics nil_dereference, s2)
                          | Some theCard \<Rightarrow>
                              (let link = MakeCardLink pd (serverRoot pd) (Board_TeamID board)
                                            (Board_ID board) (Block_ID theCard);
                                   post = \<lparr>Post_UserId = botID pd,
                                           Post_ChannelId = Channel_Id channel,
                                           Post_Message = formatMessage pd (Username author) extract
                                             (Block_Title theCard) link (ev_BlockChanged evt)\<rparr>
                               in case CreatePost (api pd) post s2 of
                                    (err, s3) \<Rightarrow> (Returns (User_Id mentionedUser, err), s3)))))))"

section \<open>A reference environment\<close>

text \<open>
  The collaborators are interfaces; their implementations are not in the source files.
  Modelled from the spec: a store that keeps the membership rows in memory, newest first
  (\<^verbatim>\<open>GetMemberForBoard(boardID, userID) -> (Member | NotFoundError)\<close>,
  \<^verbatim>\<open>SaveMember(member) -> (Member, error)\<close>), a permission service that reads the rows
  for board access, and a directory of three users.  The delivery is the plugin delivery of
  the source, over a chat server whose \<^verbatim>\<open>CreatePost\<close> returns the given error.
\<close>

definition ErrNotFound :: error where
  "ErrNotFound = External ''not found''"

definition memberRow :: "string \<Rightarrow> string \<Rightarrow> BoardMember list \<Rightarrow> BoardMember option" where
  "memberRow boardID userID rows = find (\<lambda>m. BoardID m = boardID \<and> UserID m = userID) rows"

definition memStore :: "BoardMember list Store" where
  "memStore =
     \<lparr>GetMemberForBoard = (\<lambda>boardID userID rows.
          (case memberRow boardID userID rows of
             None \<Rightarrow> (None, Some ErrNotFound)
           | Some m \<Rightarrow> (Some m, None), rows)),
      SaveMember = (\<lambda>m rows. ((Some m, None), m # rows)),
      Store_IsErrNotFound = (\<lambda>e. e = Some ErrNotFound)\<rparr>"

text \<open>A store whose lookup fails with an error that is not a NotFound error.\<close>

definition flakyStore :: "BoardMember list Store" where
  "flakyStore =
     \<lparr>GetMemberForBoard = (\<lambda>boardID userID rows. ((None, Some (External ''db down'')), rows)),
      SaveMember = (\<lambda>m rows. ((Some m, None), m # rows)),
      Store_IsErrNotFound = (\<lambda>e. e = Some ErrNotFound)\<rparr>"

definition alice :: User where
  "alice = \<lparr>User_Id = ''u1'', Username = ''alice''\<rparr>"

definition carol :: User where
  "carol = \<lparr>User_Id = ''u3'', Username = ''carol''\<rparr>"

definition demoPlugin :: "error option \<Rightarrow> BoardMember list PluginDelivery" where
  "demoPlugin postErr =
     \<lparr>api = \<lparr>GetUserByID = (\<lambda>userID rows. (Inr \<lparr>User_Id = userID, Username = ''bob''\<rparr>, rows)),
             GetDirectChannel = (\<lambda>userID1 userID2 rows. (Inr \<lparr>Channel_Id = ''dm''\<rparr>, rows)),
             CreatePost = (\<lambda>post rows. (postErr, rows))\<rparr>,
      botID = ''bot'',
      serverRoot = ''srv'',
      MakeCardLink = (\<lambda>root teamID boardID cardID. root @ ''/'' @ cardID),
      formatMessage = (\<lambda>author extract title link blk. author @ '': '' @ extract)\<rparr>"

definition demoDelivery :: "error option \<Rightarrow> BoardMember list MentionDelivery" where
  "demoDelivery postErr =
     \<lparr>UserByUsername = (\<lambda>name rows.
          (if name = ''alice'' then Inr alice
           else if name = ''carol'' then Inr carol
           else if name = ''eve'' then Inl (External ''directory down'')
           else Inl ErrNotFound, rows)),
      MentionDeliver = PluginDelivery_MentionDeliver (demoPlugin postErr),
      Delivery_IsErrNotFound = (\<lambda>e. e = Some ErrNotFound)\<rparr>"

definition demoPermissions :: "BoardMember list PermissionsService" where
  "demoPermissions =
     \<lparr>HasPermissionToTeam = (\<lambda>userID teamID perm rows. (userID = ''u1'', rows)),
      HasPermissionToBoard = (\<lambda>userID boardID perm rows.
          (memberRow boardID userID rows \<noteq> None, rows))\<rparr>"

definition demoAdapter :: "BoardMember list Adapter" where
  "demoAdapter = \<lparr>BroadcastMemberChange = (\<lambda>teamID boardID member rows. rows)\<rparr>"

definition goodListener :: "BoardMember list MentionListener" where
  "goodListener = (\<lambda>userID evt rows. (Returns (), rows))"

definition badListener :: "BoardMember list MentionListener" where
  "badListener = (\<lambda>userID evt rows. (Panics ''boom'', rows))"

definition demoBackend ::
  "BoardMember list Store \<Rightarrow> error option \<Rightarrow> BoardMember list MentionListener list
     \<Rightarrow> BoardMember list Backend" where
  "demoBackend st postErr ls =
     \<lparr>store = st, permissions = demoPermissions, delivery = demoDelivery postErr,
      wsAdapter = demoAdapter, listeners = ls\<rparr>"

text \<open>A table in place of the tokenizer, which is not in the source files.\<close>

definition demoPackage :: Package where
  "demoPackage =
     \<lparr>mentionsOfText = (\<lambda>text.
          if text = ''@alice'' then [''alice'']
          else if text = ''@eve @zed @alice'' then [''eve'', ''zed'', ''alice'']
          else []),
      extractText = (\<lambda>text username lim. text),
      newLimits = \<lparr>limit_before = 0, limit_after = 0\<rparr>\<rparr>"

definition actor :: "bool \<Rightarrow> bool \<Rightarrow> bool \<Rightarrow> bool \<Rightarrow> BoardMember" where
  "actor adm edi com vie =
     \<lparr>UserID = ''u2'', BoardID = ''b1'', SchemeAdmin = adm, SchemeEditor = edi,
      SchemeCommenter = com, SchemeViewer = vie\<rparr>"

definition editorBob :: BoardMember where
  "editorBob = actor False True False False"

definition viewerBob :: BoardMember where
  "viewerBob = actor False False False True"

definition demoEvent ::
  "BoardType \<Rightarrow> BoardMember option \<Rightarrow> BlockType \<Rightarrow> string \<Rightarrow> Block option \<Rightarrow> BlockChangeEvent" where
  "demoEvent ty modifiedBy kind text old =
     \<lparr>ev_Action = Update, ev_TeamID = ''t1'',
      ev_Board = Some \<lparr>Board_ID = ''b1'', Board_TeamID = ''t1'', Board_Type = ty\<rparr>,
      ev_Card = Some \<lparr>Block_ID = ''c1'', Block_Title = ''card'', Block_Type = TypeOther\<rparr>,
      ev_BlockChanged = \<lparr>Block_ID = ''k1'', Block_Title = text, Block_Type = kind\<rparr>,
      ev_BlockOld = old,
      ev_ModifiedBy = modifiedBy\<rparr>"


section \<open>Reading the log\<close>

text \<open>
  \<^verbatim>\<open>deliverMentionNotification\<close> begins with \<^verbatim>\<open>UserByUsername(username)\<close>, so the usernames
  handed to \<^verbatim>\<open>UserByUsername\<close> are the usernames for which a delivery was attempted.
\<close>

fun lookups :: "effect list \<Rightarrow> string list" where
  "lookups [] = []"
| "lookups (EUserByUsername username # es) = username # lookups es"
| "lookups (e # es) = lookups es"

definition isMentionDeliver :: "effect \<Rightarrow> bool" where
  "isMentionDeliver e = (case e of EMentionDeliver u x evt \<Rightarrow> True | _ \<Rightarrow> False)"

definition isOnMention :: "effect \<Rightarrow> bool" where
  "isOnMention e = (case e of EOnMention i userID evt \<Rightarrow> True | _ \<Rightarrow> False)"

definition isErrorLog :: "effect \<Rightarrow> bool" where
  "isErrorLog e = (case e of ELog lvl msg \<Rightarrow> lvl = LvlError | _ \<Rightarrow> False)"

text \<open>The usernames of the new text that are not in the old text, in the order of the loop.\<close>

definition newOnly :: "Package \<Rightarrow> BlockChangeEvent \<Rightarrow> string list" where
  "newOnly pkg evt =
     filter (\<lambda>username. username \<notin> set (extractMentions pkg (ev_BlockOld evt)))
       (extractMentions pkg (Some (ev_BlockChanged evt)))"

text \<open>The conditions of lines 96 to 108 under which \<^verbatim>\<open>BlockChanged\<close> goes on to the mentions.\<close>

definition relevant :: "BlockChangeEvent \<Rightarrow> bool" where
  "relevant evt \<longleftrightarrow>
     ev_Board evt \<noteq> None \<and> ev_Card evt \<noteq> None \<and> ev_Action evt \<noteq> Delete
     \<and> (Block_Type (ev_BlockChanged evt) = TypeText
        \<or> Block_Type (ev_BlockChanged evt) = TypeComment
        \<or> Block_Type (ev_BlockChanged evt) = TypeImage)"

text \<open>
  What each username of a list came to, one after the other: the username, the user id and
  the error that \<^verbatim>\<open>deliverMentionNotification\<close> returned for it.  The world goes through
  the delivery and, for a user id that is not empty, through the listeners.
\<close>

fun mentionResults ::
  "Package \<Rightarrow> 's Backend \<Rightarrow> BlockChangeEvent \<Rightarrow> string list \<Rightarrow> 's world
     \<Rightarrow> (string \<times> string \<times> error option) list" where
  "mentionResults pkg b evt [] w = []"
| "mentionResults pkg b evt (username # rest) w =
     (case deliverMentionNotification b username
             (extractText pkg (Block_Title (ev_BlockChanged evt)) username (newLimits pkg)) evt w of
        (Panics r, w1) \<Rightarrow> []
      | (Returns (userID, err), w1) \<Rightarrow>
          (username, userID, err) #
            mentionResults pkg b evt rest
              (if userID = [] then w1
               else callListeners 0 (listeners b) userID evt
                      (logger_Debug ''Mention notification delivered'' w1)))"

definition failures :: "(string \<times> string \<times> error option) list \<Rightarrow> error list" where
  "failures rs =
     concat (map (\<lambda>(username, userID, err).
        case err of
          None \<Rightarrow> []
        | Some e \<Rightarrow> [Errorf (''cannot deliver notification for @'' @ username @ '': '') e]) rs)"


text \<open>A listener that does to the world what the given one does, and returns.\<close>

definition calm :: "'s MentionListener \<Rightarrow> 's MentionListener" where
  "calm l = (\<lambda>userID evt s. (Returns (), snd (l userID evt s)))"

subsection \<open>The shape of an enrolment\<close>

text \<open>
  The row that line 191 builds, and an automaton over the log.  It accepts a log in which
  a \<^verbatim>\<open>SaveMember\<close> comes only right after a lookup that found no member (a nil member, or
  a NotFound error) and saves the editor row of that board and user, a \<^verbatim>\<open>SaveMember\<close>
  without error is followed by one \<^verbatim>\<open>BroadcastMemberChange\<close> of the row it returned, to
  the team of the event, and there is no other \<^verbatim>\<open>SaveMember\<close> or
  \<^verbatim>\<open>BroadcastMemberChange\<close>.  Lines of the logger are passed over.
\<close>

definition editorRow :: "string \<Rightarrow> string \<Rightarrow> BoardMember" where
  "editorRow userID boardID =
     \<lparr>UserID = userID, BoardID = boardID, SchemeAdmin = False, SchemeEditor = True,
      SchemeCommenter = False, SchemeViewer = False\<rparr>"








subsection \<open>Membership of one board and user\<close>








subsection \<open>The fan-out to the listeners\<close>

text \<open>A listener that enrols the mentioned user on a board of its own, and one that does so and then panics.\<close>

definition subscribeListener :: "string \<Rightarrow> BoardMember list MentionListener" where
  "subscribeListener boardID =
     (\<lambda>userID evt rows. (Returns (), editorRow userID boardID # rows))"

definition crashingListener :: "string \<Rightarrow> BoardMember list MentionListener" where
  "crashingListener boardID =
     (\<lambda>userID evt rows. (Panics ''boom'', editorRow userID boardID # rows))"

text \<open>
  The state that the fan-out of the spec leaves: every listener of the snapshot is applied,
  in order, to the state that the one before it left, whether that one returned or panicked.
\<close>

definition fanOutState :: "'s MentionListener list \<Rightarrow> string \<Rightarrow> BlockChangeEvent \<Rightarrow> 's \<Rightarrow> 's" where
  "fanOutState ls userID evt s = foldl (\<lambda>s' l. snd (l userID evt s')) s ls"

text \<open>
  The state after the usernames of a list: each goes through the delivery and, when the
  delivery gave a user id, through the fan-out to all listeners of the backend.
\<close>

fun afterMentions ::
  "Package \<Rightarrow> 's Backend \<Rightarrow> BlockChangeEvent \<Rightarrow> string list \<Rightarrow> 's \<Rightarrow> 's" where
  "afterMentions pkg b evt [] s = s"
| "afterMentions pkg b evt (username # rest) s =
     (case deliverMentionNotification b username
             (extractText pkg (Block_Title (ev_BlockChanged evt)) username (newLimits pkg)) evt (s, []) of
        (Panics r, w1) \<Rightarrow> fst w1
      | (Returns (userID, err), w1) \<Rightarrow>
          afterMentions pkg b evt rest
            (if userID = [] then fst w1 else fanOutState (listeners b) userID evt (fst w1)))"

text \<open>
  The \<^verbatim>\<open>OnMention\<close> calls of the spec for the results of a list of usernames: for each
  delivery that gave a user id, one call of each of the \<open>n\<close> listeners, in order, with
  that user id and the event.
\<close>

definition fanOuts ::
  "nat \<Rightarrow> BlockChangeEvent \<Rightarrow> (string \<times> string \<times> error option) list \<Rightarrow> effect list" where
  "fanOuts n evt rs =
     concat (map (\<lambda>(username, userID, err).
        if userID = [] then [] else map (\<lambda>k. EOnMention k userID evt) [0..<n]) rs)"

section \<open>Properties\<close>

subsection \<open>Shared lemmas\<close>

lemmas call_defs = call_UserByUsername_def call_HasPermissionToTeam_def call_HasPermissionToBoard_def
  call_GetMemberForBoard_def call_SaveMember_def call_BroadcastMemberChange_def call_MentionDeliver_def
  logger_Debug_def logger_Error_def emit_def

lemmas rule_defs = deliverMentionNotification_def openBoardRules_def privateBoardRules_def
  addMentionedUserToBoard_def

lemmas demo_defs = demoBackend_def demoDelivery_def demoPlugin_def demoPermissions_def demoAdapter_def
  demoPackage_def demoEvent_def memStore_def flakyStore_def memberRow_def alice_def carol_def
  ErrNotFound_def goodListener_def badListener_def actor_def editorBob_def viewerBob_def

lemmas eval_defs = BlockChanged_def rule_defs safeCallListener_def extractMentions_def
  PluginDelivery_MentionDeliver_def merror_New_def merror_Append_def ErrorOrNil_def call_defs
  demo_defs Let_def

lemma lookups_append: "lookups (xs @ ys) = lookups xs @ lookups ys"
  by (induction xs rule: lookups.induct) auto

lemma lookups_map: "lookups (map EUserByUsername names) = names"
  by (induction names) auto

text \<open>The log is only written: a run from a log is the run from the empty log, appended.\<close>

lemma addMentionedUserToBoard_log:
  "tr \<noteq> [] \<Longrightarrow> addMentionedUserToBoard b u board evt (s, tr)
     = (fst (addMentionedUserToBoard b u board evt (s, [])),
        fst (snd (addMentionedUserToBoard b u board evt (s, []))),
        tr @ snd (snd (addMentionedUserToBoard b u board evt (s, []))))"
  by (auto simp add: addMentionedUserToBoard_def call_defs Let_def split: prod.splits option.splits)

lemma openBoardRules_log:
  "tr \<noteq> [] \<Longrightarrow> openBoardRules b u m board evt (s, tr)
     = (fst (openBoardRules b u m board evt (s, [])),
        fst (snd (openBoardRules b u m board evt (s, []))),
        tr @ snd (snd (openBoardRules b u m board evt (s, []))))"
  by (auto simp add: openBoardRules_def addMentionedUserToBoard_log call_defs Let_def
        split: prod.splits option.splits bool.splits)

lemma privateBoardRules_log:
  "tr \<noteq> [] \<Longrightarrow> privateBoardRules b u m board evt (s, tr)
     = (fst (privateBoardRules b u m board evt (s, [])),
        fst (snd (privateBoardRules b u m board evt (s, []))),
        tr @ snd (snd (privateBoardRules b u m board evt (s, []))))"
  by (auto simp add: privateBoardRules_def call_defs Let_def
        split: prod.splits option.splits bool.splits)

lemma deliverMentionNotification_log:
  "deliverMentionNotification b u x evt (s, tr)
     = (fst (deliverMentionNotification b u x evt (s, [])),
        fst (snd (deliverMentionNotification b u x evt (s, []))),
        tr @ snd (snd (deliverMentionNotification b u x evt (s, []))))"
  by (auto simp add: deliverMentionNotification_def openBoardRules_log privateBoardRules_log
        call_defs Let_def split: prod.splits option.splits bool.splits sum.splits)

text \<open>One delivery looks one username up, at the start.\<close>

lemma addMentionedUserToBoard_lookups:
  "lookups (snd (snd (addMentionedUserToBoard b u board evt (s, [])))) = []"
  by (auto simp add: addMentionedUserToBoard_def call_defs Let_def split: prod.splits option.splits)

lemma openBoardRules_lookups:
  "lookups (snd (snd (openBoardRules b u m board evt (s, [])))) = []"
  by (auto simp add: openBoardRules_def addMentionedUserToBoard_log addMentionedUserToBoard_lookups
        lookups_append call_defs split: prod.splits bool.splits)

lemma privateBoardRules_lookups:
  "lookups (snd (snd (privateBoardRules b u m board evt (s, [])))) = []"
  by (auto simp add: privateBoardRules_def call_defs split: prod.splits bool.splits)

lemma deliverMentionNotification_lookups:
  "lookups (snd (snd (deliverMentionNotification b u x evt (s, [])))) = [u]"
  by (auto simp add: deliverMentionNotification_def openBoardRules_log privateBoardRules_log
        openBoardRules_lookups privateBoardRules_lookups lookups_append call_defs
        split: prod.splits bool.splits sum.splits option.splits)

lemma safeCallListener_log:
  "safeCallListener i l userID evt (s, tr)
     = (fst (safeCallListener i l userID evt (s, [])),
        tr @ snd (safeCallListener i l userID evt (s, [])))"
  by (auto simp add: safeCallListener_def call_defs split: prod.splits outcome.splits)

lemma callListeners_log:
  "callListeners i ls userID evt (s, tr)
     = (fst (callListeners i ls userID evt (s, [])),
        tr @ snd (callListeners i ls userID evt (s, [])))"
proof (induction ls arbitrary: i s tr)
  case Nil
  show ?case by simp
next
  case (Cons l ls)
  obtain s1 e1 where l: "safeCallListener i l userID evt (s, []) = (s1, e1)"
    by (cases "safeCallListener i l userID evt (s, [])")
  have "safeCallListener i l userID evt (s, tr) = (s1, tr @ e1)"
    using safeCallListener_log[of i l userID evt s tr] l by simp
  then show ?case
    using l Cons.IH[of "Suc i" s1 "tr @ e1"] Cons.IH[of "Suc i" s1 e1] by simp
qed

lemma safeCallListener_lookups: "lookups (snd (safeCallListener i l userID evt (s, []))) = []"
  by (auto simp add: safeCallListener_def call_defs split: prod.splits outcome.splits)

lemma callListeners_lookups: "lookups (snd (callListeners i ls userID evt (s, []))) = []"
proof (induction ls arbitrary: i s)
  case Nil
  show ?case by simp
next
  case (Cons l ls)
  obtain s1 e1 where l: "safeCallListener i l userID evt (s, []) = (s1, e1)"
    by (cases "safeCallListener i l userID evt (s, [])")
  have "lookups e1 = []" using safeCallListener_lookups[of i l userID evt s] l by simp
  then show ?case
    using l Cons.IH[of "Suc i" s1] callListeners_log[of "Suc i" ls userID evt s1 e1]
    by (simp add: lookups_append)
qed

text \<open>The loop looks up usernames of the new text that are not in the old text, in order.\<close>

lemma mentionLoop_lookups:
  "\<exists>ext rest. snd (snd (mentionLoop pkg b evt ls old ms merr w)) = snd w @ ext
      \<and> filter (\<lambda>u. u \<notin> set old) ms = lookups ext @ rest
      \<and> (\<forall>merr'. fst (mentionLoop pkg b evt ls old ms merr w) = Returns merr' \<longrightarrow> rest = [])"
proof (induction ms arbitrary: merr w)
  case Nil
  show ?case by simp
next
  case (Cons u ms)
  show ?case
  proof (cases "u \<in> set old")
    case True
    then show ?thesis using Cons.IH[of merr w] by simp
  next
    case False
    let ?x = "extractText pkg (Block_Title (ev_BlockChanged evt)) u (newLimits pkg)"
    obtain r s1 e1 where d0: "deliverMentionNotification b u ?x evt (fst w, []) = (r, (s1, e1))"
      by (metis prod.exhaust)
    have e1: "lookups e1 = [u]"
      using deliverMentionNotification_lookups[of b u ?x evt "fst w"] d0 by simp
    have d: "deliverMentionNotification b u ?x evt w = (r, (s1, snd w @ e1))"
      using deliverMentionNotification_log[of b u ?x evt "fst w" "snd w"] d0 by simp
    show ?thesis
    proof (cases r)
      case (Panics p)
      then show ?thesis using False d e1 by (auto intro!: exI[of _ e1])
    next
      case (Returns ur)
      obtain userID err where ur: "ur = (userID, err)" by (cases ur)
      let ?m = "case err of None \<Rightarrow> merr | Some e \<Rightarrow> merror_Append merr
                  (Errorf (''cannot deliver notification for @'' @ u @ '': '') e)"
      show ?thesis
      proof (cases "userID = []")
        case True
        obtain ext rest where
          "snd (snd (mentionLoop pkg b evt ls old ms ?m (s1, snd w @ e1))) = (snd w @ e1) @ ext"
          "filter (\<lambda>u. u \<notin> set old) ms = lookups ext @ rest"
          "\<forall>merr'. fst (mentionLoop pkg b evt ls old ms ?m (s1, snd w @ e1)) = Returns merr' \<longrightarrow> rest = []"
          using Cons.IH[of ?m "(s1, snd w @ e1)"] by auto
        then show ?thesis using False d e1 Returns ur True
          by (auto simp add: lookups_append intro!: exI[of _ "e1 @ ext"])
      next
        case nonempty: False
        obtain s2 e2 where c0: "callListeners 0 ls userID evt (s1, []) = (s2, e2)"
          by (metis prod.exhaust)
        have e2: "lookups e2 = []" using callListeners_lookups[of 0 ls userID evt s1] c0 by simp
        let ?l = "ELog LvlDebug ''Mention notification delivered''"
        have c: "callListeners 0 ls userID evt (logger_Debug ''Mention notification delivered'' (s1, snd w @ e1))
                   = (s2, snd w @ e1 @ ?l # e2)"
          using callListeners_log[of 0 ls userID evt s1 "snd w @ e1 @ [?l]"] c0
          by (simp add: call_defs)
        obtain ext rest where
          "snd (snd (mentionLoop pkg b evt ls old ms ?m (s2, snd w @ e1 @ ?l # e2))) = (snd w @ e1 @ ?l # e2) @ ext"
          "filter (\<lambda>u. u \<notin> set old) ms = lookups ext @ rest"
          "\<forall>merr'. fst (mentionLoop pkg b evt ls old ms ?m (s2, snd w @ e1 @ ?l # e2)) = Returns merr' \<longrightarrow> rest = []"
          using Cons.IH[of ?m "(s2, snd w @ e1 @ ?l # e2)"] by auto
        then show ?thesis using False d e1 e2 Returns ur nonempty c
          by (auto simp add: lookups_append intro!: exI[of _ "e1 @ ?l # e2 @ ext"])
      qed
    qed
  qed
qed


text \<open>An invariant of the world holds after the loop if each delivery and each fan-out keeps it.\<close>

lemma mentionLoop_preserves:
  assumes "P w"
    and "\<And>u w r w'. P w \<Longrightarrow> u \<in> set ms \<Longrightarrow> u \<notin> set old \<Longrightarrow>
           deliverMentionNotification b u
             (extractText pkg (Block_Title (ev_BlockChanged evt)) u (newLimits pkg)) evt w = (r, w')
           \<Longrightarrow> P w' \<and> (\<forall>userID err. r = Returns (userID, err) \<and> userID \<noteq> [] \<longrightarrow>
                  P (callListeners 0 ls userID evt (logger_Debug ''Mention notification delivered'' w')))"
  shows "P (snd (mentionLoop pkg b evt ls old ms merr w))"
  using assms
proof (induction ms arbitrary: merr w)
  case Nil
  then show ?case by simp
next
  case (Cons u ms)
  have step: "P w' \<and> (\<forall>userID err. r = Returns (userID, err) \<and> userID \<noteq> [] \<longrightarrow>
                  P (callListeners 0 ls userID evt (logger_Debug ''Mention notification delivered'' w')))"
    if "P w0" "v \<in> set ms" "v \<notin> set old"
       "deliverMentionNotification b v
             (extractText pkg (Block_Title (ev_BlockChanged evt)) v (newLimits pkg)) evt w0 = (r, w')"
    for v w0 r w'
    using Cons.prems(2)[of w0 v r w'] that by simp
  show ?case
  proof (cases "u \<in> set old")
    case True
    then show ?thesis using Cons.IH[of w merr, OF Cons.prems(1) step] by simp
  next
    case False
    let ?x = "extractText pkg (Block_Title (ev_BlockChanged evt)) u (newLimits pkg)"
    obtain r w1 where d: "deliverMentionNotification b u ?x evt w = (r, w1)"
      by (metis prod.exhaust)
    have p1: "P w1"
      and p2: "\<And>userID err. r = Returns (userID, err) \<Longrightarrow> userID \<noteq> [] \<Longrightarrow>
                 P (callListeners 0 ls userID evt (logger_Debug ''Mention notification delivered'' w1))"
      using Cons.prems(2)[of w u r w1] Cons.prems(1) False d by auto
    show ?thesis
    proof (cases r)
      case (Panics p)
      then show ?thesis using False d p1 by simp
    next
      case (Returns ur)
      obtain userID err where ur: "ur = (userID, err)" by (cases ur)
      show ?thesis
      proof (cases "userID = []")
        case True
        then show ?thesis using False d Returns ur Cons.IH[of w1 _, OF p1 step] by simp
      next
        case nonempty: False
        have p3: "P (callListeners 0 ls userID evt (logger_Debug ''Mention notification delivered'' w1))"
          using p2 Returns ur nonempty by simp
        show ?thesis using False d Returns ur nonempty
            Cons.IH[of "callListeners 0 ls userID evt (logger_Debug ''Mention notification delivered'' w1)" _,
              OF p3 step]
          by simp
      qed
    qed
  qed
qed

lemma BlockChanged_preserves:
  assumes "P w"
    and "\<And>u w r w'. P w \<Longrightarrow> u \<in> set (newOnly pkg evt) \<Longrightarrow> relevant evt \<Longrightarrow>
           deliverMentionNotification b u
             (extractText pkg (Block_Title (ev_BlockChanged evt)) u (newLimits pkg)) evt w = (r, w')
           \<Longrightarrow> P w' \<and> (\<forall>userID err. r = Returns (userID, err) \<and> userID \<noteq> [] \<longrightarrow>
                  P (callListeners 0 (listeners b) userID evt
                       (logger_Debug ''Mention notification delivered'' w')))"
  shows "P (snd (BlockChanged pkg b evt w))"
proof (cases "relevant evt")
  case False
  then show ?thesis using assms(1) by (auto simp add: BlockChanged_def relevant_def)
next
  case True
  have "P (snd (mentionLoop pkg b evt (listeners b) (extractMentions pkg (ev_BlockOld evt))
                  (extractMentions pkg (Some (ev_BlockChanged evt))) merror_New w))"
    by (rule mentionLoop_preserves[where P = P, OF assms(1)]) (use assms(2) True in \<open>auto simp add: newOnly_def\<close>)
  then show ?thesis using assms(1)
    by (auto simp add: BlockChanged_def Let_def split: prod.splits outcome.splits)
qed

subsection \<open>Events that are not looked at\<close>

text \<open>
  C9.  When the board is absent, the card is absent, the action is a delete, or the kind of
  the changed block is not text, comment or image, \<^verbatim>\<open>BlockChanged\<close> returns nil and leaves
  the world as it was: the state of the collaborators and the log are unchanged, so there
  was no store read or write, no delivery, no broadcast and no listener call.
\<close>

theorem BlockChanged_noop:
  assumes "ev_Board evt = None \<or> ev_Card evt = None \<or> ev_Action evt = Delete
           \<or> Block_Type (ev_BlockChanged evt) \<notin> {TypeText, TypeComment, TypeImage}"
  shows "BlockChanged pkg b evt w = (Returns None, w)"
  using assms by (auto simp add: BlockChanged_def)

theorem BlockChanged_noop_witness:
  "Block_Type (ev_BlockChanged (demoEvent BoardTypeOpen (Some editorBob) TypeOther ''@alice'' None))
     \<notin> {TypeText, TypeComment, TypeImage}
   \<and> BlockChanged demoPackage (demoBackend memStore None [goodListener])
        (demoEvent BoardTypeOpen (Some editorBob) TypeOther ''@alice'' None) ([], [])
      = (Returns None, ([], []))"
proof -
  have h: "Block_Type (ev_BlockChanged (demoEvent BoardTypeOpen (Some editorBob) TypeOther ''@alice'' None))
     \<notin> {TypeText, TypeComment, TypeImage}"
    by (simp add: demoEvent_def)
  have "ev_Board (demoEvent BoardTypeOpen (Some editorBob) TypeOther ''@alice'' None) = None
      \<or> ev_Card (demoEvent BoardTypeOpen (Some editorBob) TypeOther ''@alice'' None) = None
      \<or> ev_Action (demoEvent BoardTypeOpen (Some editorBob) TypeOther ''@alice'' None) = Delete
      \<or> Block_Type (ev_BlockChanged (demoEvent BoardTypeOpen (Some editorBob) TypeOther ''@alice'' None))
           \<notin> {TypeText, TypeComment, TypeImage}"
    using h by simp
  from BlockChanged_noop[OF this] h show ?thesis by simp
qed

subsection \<open>Mentions that were already there\<close>

lemma BlockChanged_lookups:
  "\<exists>ext rest. snd (snd (BlockChanged pkg b evt w)) = snd w @ ext
      \<and> newOnly pkg evt = lookups ext @ rest"
proof (cases "relevant evt \<and> extractMentions pkg (Some (ev_BlockChanged evt)) \<noteq> []")
  case False
  then have "BlockChanged pkg b evt w = (Returns None, w)"
    by (auto simp add: BlockChanged_def relevant_def)
  then show ?thesis by simp
next
  case True
  obtain ext rest where
    "snd (snd (mentionLoop pkg b evt (listeners b) (extractMentions pkg (ev_BlockOld evt))
                 (extractMentions pkg (Some (ev_BlockChanged evt))) merror_New w)) = snd w @ ext"
    "newOnly pkg evt = lookups ext @ rest"
    using mentionLoop_lookups[of pkg b evt "listeners b" "extractMentions pkg (ev_BlockOld evt)"
            "extractMentions pkg (Some (ev_BlockChanged evt))" merror_New w]
    by (auto simp add: newOnly_def)
  then show ?thesis using True
    by (auto simp add: BlockChanged_def relevant_def Let_def split: prod.splits outcome.splits)
qed

lemma mentionLoop_all_old:
  "set ms \<subseteq> set old \<Longrightarrow> mentionLoop pkg b evt ls old ms merr w = (Returns merr, w)"
  by (induction ms) auto

lemma BlockChanged_nothing_new:
  assumes "newOnly pkg evt = []"
  shows "BlockChanged pkg b evt w = (Returns None, w)"
proof -
  have "set (extractMentions pkg (Some (ev_BlockChanged evt))) \<subseteq> set (extractMentions pkg (ev_BlockOld evt))"
    using assms by (auto simp add: newOnly_def filter_empty_conv)
  then have "mentionLoop pkg b evt ls (extractMentions pkg (ev_BlockOld evt))
          (extractMentions pkg (Some (ev_BlockChanged evt))) merr w = (Returns merr, w)" for ls merr
    by (rule mentionLoop_all_old)
  then show ?thesis
    by (auto simp add: BlockChanged_def Let_def merror_New_def ErrorOrNil_def)
qed

text \<open>
  C5.  A delivery starts by looking its username up, and the usernames that
  \<^verbatim>\<open>BlockChanged\<close> looks up are not among the mentions of the old block: for a username
  of the old text there is no delivery and no authorization.  When the old block has the
  text of the new one, \<^verbatim>\<open>BlockChanged\<close> returns nil and the world is as it was.
\<close>

theorem BlockChanged_skips_old_mentions:
  "\<exists>ext. snd (snd (BlockChanged pkg b evt w)) = snd w @ ext
      \<and> (\<forall>username \<in> set (extractMentions pkg (ev_BlockOld evt)). username \<notin> set (lookups ext))
      \<and> (\<forall>old. ev_BlockOld evt = Some old \<and> Block_Title old = Block_Title (ev_BlockChanged evt)
            \<longrightarrow> ext = [] \<and> BlockChanged pkg b evt w = (Returns None, w))"
proof -
  obtain ext rest where e: "snd (snd (BlockChanged pkg b evt w)) = snd w @ ext"
    and n: "newOnly pkg evt = lookups ext @ rest"
    using BlockChanged_lookups by blast
  have "set (lookups ext) \<subseteq> set (newOnly pkg evt)" using n by simp
  then have a: "\<forall>username \<in> set (extractMentions pkg (ev_BlockOld evt)). username \<notin> set (lookups ext)"
    by (auto simp add: newOnly_def)
  have b: "ext = [] \<and> BlockChanged pkg b evt w = (Returns None, w)"
    if "ev_BlockOld evt = Some old" "Block_Title old = Block_Title (ev_BlockChanged evt)" for old
  proof -
    have "newOnly pkg evt = []" using that by (simp add: newOnly_def extractMentions_def)
    from BlockChanged_nothing_new[OF this, of b w] e show ?thesis by simp
  qed
  show ?thesis using e a b by blast
qed


theorem BlockChanged_skips_old_mentions_witness:
  "''alice'' \<in> set (extractMentions demoPackage (ev_BlockOld
        (demoEvent BoardTypeOpen (Some editorBob) TypeText ''@eve @zed @alice''
           (Some \<lparr>Block_ID = ''k1'', Block_Title = ''@alice'', Block_Type = TypeText\<rparr>))))
   \<and> ''alice'' \<notin> set (lookups (snd (snd (BlockChanged demoPackage (demoBackend memStore None [goodListener])
        (demoEvent BoardTypeOpen (Some editorBob) TypeText ''@eve @zed @alice''
           (Some \<lparr>Block_ID = ''k1'', Block_Title = ''@alice'', Block_Type = TypeText\<rparr>)) ([], [])))))
   \<and> Block_Title \<lparr>Block_ID = ''k0'', Block_Title = ''@alice'', Block_Type = TypeText\<rparr>
       = Block_Title (ev_BlockChanged (demoEvent BoardTypeOpen (Some editorBob) TypeText ''@alice''
           (Some \<lparr>Block_ID = ''k0'', Block_Title = ''@alice'', Block_Type = TypeText\<rparr>)))
   \<and> BlockChanged demoPackage (demoBackend memStore None [goodListener])
        (demoEvent BoardTypeOpen (Some editorBob) TypeText ''@alice''
           (Some \<lparr>Block_ID = ''k0'', Block_Title = ''@alice'', Block_Type = TypeText\<rparr>)) ([], [])
       = (Returns None, ([], []))"
proof -
  let ?B = "demoBackend memStore None [goodListener]"
  let ?old = "\<lparr>Block_ID = ''k1'', Block_Title = ''@alice'', Block_Type = TypeText\<rparr>"
  let ?evA = "demoEvent BoardTypeOpen (Some editorBob) TypeText ''@eve @zed @alice'' (Some ?old)"
  let ?old0 = "\<lparr>Block_ID = ''k0'', Block_Title = ''@alice'', Block_Type = TypeText\<rparr>"
  let ?evB = "demoEvent BoardTypeOpen (Some editorBob) TypeText ''@alice'' (Some ?old0)"
  have m: "''alice'' \<in> set (extractMentions demoPackage (ev_BlockOld ?evA))"
    by (simp add: extractMentions_def demoPackage_def demoEvent_def)
  have o: "ev_BlockOld ?evB = Some ?old0" and t: "Block_Title ?old0 = Block_Title (ev_BlockChanged ?evB)"
    by (simp_all add: demoEvent_def)
  have gen1: "u \<notin> set (lookups (snd (snd (BlockChanged pkg b evt ([], [])))))"
    if "u \<in> set (extractMentions pkg (ev_BlockOld evt))"
    for pkg and b :: "BoardMember list Backend" and evt u
    using BlockChanged_skips_old_mentions[of pkg b evt "([], [])"] that by auto
  have gen2: "BlockChanged pkg b evt w = (Returns None, w)"
    if "ev_BlockOld evt = Some old" "Block_Title old = Block_Title (ev_BlockChanged evt)"
    for pkg and b :: "BoardMember list Backend" and evt w old
    using BlockChanged_skips_old_mentions[of pkg b evt w] that by blast
  have a: "''alice'' \<notin> set (lookups (snd (snd (BlockChanged demoPackage ?B ?evA ([], [])))))"
    using m by (rule gen1)
  have b: "BlockChanged demoPackage ?B ?evB ([], []) = (Returns None, ([], []))"
    using o t by (rule gen2)
  show ?thesis using m a t b by (intro conjI)
qed

subsection \<open>Who may mention\<close>

lemma BlockChanged_lookups_only:
  assumes "\<And>u x w0. \<exists>r s'. deliverMentionNotification b u x evt w0
                          = (Returns ([], r), (s', snd w0 @ [EUserByUsername u]))"
  shows "\<exists>names. snd (snd (BlockChanged pkg b evt w)) = snd w @ map EUserByUsername names"
proof (rule BlockChanged_preserves[where P = "\<lambda>w'. \<exists>names. snd w' = snd w @ map EUserByUsername names"])
  show "\<exists>names. snd w = snd w @ map EUserByUsername names"
    by (rule exI[of _ "[]"]) simp
next
  fix u w1 r w'
  assume p: "\<exists>names. snd w1 = snd w @ map EUserByUsername names"
    and d: "deliverMentionNotification b u
              (extractText pkg (Block_Title (ev_BlockChanged evt)) u (newLimits pkg)) evt w1 = (r, w')"
  obtain names where n: "snd w1 = snd w @ map EUserByUsername names" using p by blast
  obtain r' s' where "r = Returns ([], r')" "w' = (s', snd w1 @ [EUserByUsername u])"
    using assms[of u "extractText pkg (Block_Title (ev_BlockChanged evt)) u (newLimits pkg)" w1] d
    by auto
  then show "(\<exists>names. snd w' = snd w @ map EUserByUsername names) \<and>
       (\<forall>userID err. r = Returns (userID, err) \<and> userID \<noteq> [] \<longrightarrow>
          (\<exists>names. snd (callListeners 0 (listeners b) userID evt
                (logger_Debug ''Mention notification delivered'' w')) = snd w @ map EUserByUsername names))"
    using n by (auto intro!: exI[of _ "names @ [u]"])
qed

text \<open>
  C7.  When the acting member of the event is missing, a mention whose username resolves
  to a user gets the permission error of line 175 and nothing but the lookup of the user
  has happened; and whatever the usernames are, \<^verbatim>\<open>BlockChanged\<close> calls no collaborator
  but \<^verbatim>\<open>UserByUsername\<close>: nothing is delivered, saved, broadcast or passed to a listener.
\<close>

theorem missing_actor_is_permission_error:
  assumes "ev_ModifiedBy evt = None"
  shows "(\<forall>username extract s tr user s'.
            UserByUsername (delivery b) username s = (Inr user, s') \<longrightarrow>
            deliverMentionNotification b username extract evt (s, tr)
              = (Returns ([], Some (Errorf ''invalid user cannot mention: '' ErrMentionPermission)),
                 (s', tr @ [EUserByUsername username])))
       \<and> errors_Is (Errorf ''invalid user cannot mention: '' ErrMentionPermission) ErrMentionPermission
       \<and> (\<exists>names. snd (snd (BlockChanged pkg b evt w)) = snd w @ map EUserByUsername names)"
proof -
  have a: "deliverMentionNotification b username x evt (s, tr)
              = (Returns ([], Some (Errorf ''invalid user cannot mention: '' ErrMentionPermission)),
                 (s', tr @ [EUserByUsername username]))"
    if "UserByUsername (delivery b) username s = (Inr user, s')" for username x s tr user s'
    using that assms by (simp add: deliverMentionNotification_def call_defs)
  have c: "\<exists>r s'. deliverMentionNotification b u x evt w0 = (Returns ([], r), (s', snd w0 @ [EUserByUsername u]))"
    for u x w0
    using assms by (auto simp add: deliverMentionNotification_def call_defs split: prod.splits sum.splits)
  show ?thesis using a BlockChanged_lookups_only[of b evt pkg w, OF c] by simp
qed

theorem missing_actor_is_permission_error_witness:
  "ev_ModifiedBy (demoEvent BoardTypeOpen None TypeText ''@alice'' None) = None
   \<and> UserByUsername (delivery (demoBackend memStore None [goodListener])) ''alice'' [] = (Inr alice, [])
   \<and> deliverMentionNotification (demoBackend memStore None [goodListener]) ''alice'' ''hi''
        (demoEvent BoardTypeOpen None TypeText ''@alice'' None) ([], [])
      = (Returns ([], Some (Errorf ''invalid user cannot mention: '' ErrMentionPermission)),
         ([], [] @ [EUserByUsername ''alice'']))"
proof -
  have h: "ev_ModifiedBy (demoEvent BoardTypeOpen None TypeText ''@alice'' None) = None"
    by (simp add: demoEvent_def)
  have u: "UserByUsername (delivery (demoBackend memStore None [goodListener])) ''alice'' []
             = (Inr alice, [])"
    by (simp add: demoBackend_def demoDelivery_def)
  have gen: "deliverMentionNotification b username x evt (s, tr)
              = (Returns ([], Some (Errorf ''invalid user cannot mention: '' ErrMentionPermission)),
                 (s', tr @ [EUserByUsername username]))"
    if "ev_ModifiedBy evt = None" "UserByUsername (delivery b) username s = (Inr user, s')"
    for evt and b :: "BoardMember list Backend" and username x s tr user s'
    using missing_actor_is_permission_error[OF that(1), where b = b and pkg = demoPackage and w = "(s, tr)"]
      that(2) by blast
  show ?thesis by (intro conjI h u gen[OF h u])
qed

text \<open>
  C6.  When the acting member has the viewer capability and none of admin, editor and
  commenter, a mention whose username resolves to a user gets the permission error of
  line 214 (open board) or 227 (any other board) and nothing but the lookup of the user has
  happened; and \<^verbatim>\<open>BlockChanged\<close> calls no collaborator but \<^verbatim>\<open>UserByUsername\<close>: there is no
  delivery and no change of a membership.
\<close>

theorem viewer_cannot_mention:
  assumes "ev_ModifiedBy evt = Some m"
    and "SchemeViewer m" and "\<not> SchemeAdmin m" and "\<not> SchemeEditor m" and "\<not> SchemeCommenter m"
    and "ev_Board evt = Some board"
  shows "(\<forall>username extract s tr user s'.
            UserByUsername (delivery b) username s = (Inr user, s') \<longrightarrow>
            deliverMentionNotification b username extract evt (s, tr)
              = (Returns ([], Some (Errorf (UserID m @ '' (viewer) cannot mention user ''
                                            @ User_Id user @ '': '') ErrMentionPermission)),
                 (s', tr @ [EUserByUsername username])))
       \<and> (\<forall>msg. errors_Is (Errorf msg ErrMentionPermission) ErrMentionPermission)
       \<and> (\<exists>names. snd (snd (BlockChanged pkg b evt w)) = snd w @ map EUserByUsername names)"
proof -
  have a: "deliverMentionNotification b username x evt (s, tr)
              = (Returns ([], Some (Errorf (UserID m @ '' (viewer) cannot mention user ''
                                            @ User_Id user @ '': '') ErrMentionPermission)),
                 (s', tr @ [EUserByUsername username]))"
    if "UserByUsername (delivery b) username s = (Inr user, s')" for username x s tr user s'
    using that assms
    by (simp add: deliverMentionNotification_def openBoardRules_def privateBoardRules_def call_defs)
  have c: "\<exists>r s'. deliverMentionNotification b u x evt w0 = (Returns ([], r), (s', snd w0 @ [EUserByUsername u]))"
    for u x w0
    using assms
    by (auto simp add: deliverMentionNotification_def openBoardRules_def privateBoardRules_def call_defs
          split: prod.splits sum.splits)
  show ?thesis using a BlockChanged_lookups_only[of b evt pkg w, OF c] by simp
qed

theorem viewer_cannot_mention_witness:
  "ev_ModifiedBy (demoEvent BoardTypePrivate (Some viewerBob) TypeText ''@alice'' None) = Some viewerBob
   \<and> SchemeViewer viewerBob \<and> \<not> SchemeAdmin viewerBob \<and> \<not> SchemeEditor viewerBob
   \<and> \<not> SchemeCommenter viewerBob
   \<and> UserByUsername (delivery (demoBackend memStore None [goodListener])) ''alice'' [] = (Inr alice, [])
   \<and> deliverMentionNotification (demoBackend memStore None [goodListener]) ''alice'' ''hi''
        (demoEvent BoardTypePrivate (Some viewerBob) TypeText ''@alice'' None) ([], [])
      = (Returns ([], Some (Errorf (UserID viewerBob @ '' (viewer) cannot mention user ''
                                     @ User_Id alice @ '': '') ErrMentionPermission)),
         ([], [] @ [EUserByUsername ''alice'']))"
proof -
  let ?evt = "demoEvent BoardTypePrivate (Some viewerBob) TypeText ''@alice'' None"
  have h1: "ev_ModifiedBy ?evt = Some viewerBob" by (simp add: demoEvent_def)
  have h2: "SchemeViewer viewerBob" and h3: "\<not> SchemeAdmin viewerBob"
    and h4: "\<not> SchemeEditor viewerBob" and h5: "\<not> SchemeCommenter viewerBob"
    by (simp_all add: viewerBob_def actor_def)
  have h6: "ev_Board ?evt = Some \<lparr>Board_ID = ''b1'', Board_TeamID = ''t1'', Board_Type = BoardTypePrivate\<rparr>"
    by (simp add: demoEvent_def)
  have u: "UserByUsername (delivery (demoBackend memStore None [goodListener])) ''alice'' []
             = (Inr alice, [])"
    by (simp add: demoBackend_def demoDelivery_def)
  have gen: "deliverMentionNotification b username x evt (s, tr)
              = (Returns ([], Some (Errorf (UserID m @ '' (viewer) cannot mention user ''
                                            @ User_Id user @ '': '') ErrMentionPermission)),
                 (s', tr @ [EUserByUsername username]))"
    if "ev_ModifiedBy evt = Some m" "SchemeViewer m" "\<not> SchemeAdmin m" "\<not> SchemeEditor m"
       "\<not> SchemeCommenter m" "ev_Board evt = Some board"
       "UserByUsername (delivery b) username s = (Inr user, s')"
    for evt m board and b :: "BoardMember list Backend" and username x s tr user s'
    using viewer_cannot_mention[OF that(1-6), where b = b and pkg = demoPackage and w = "(s, tr)"]
      that(7) by blast
  show ?thesis by (intro conjI h1 h2 h3 h4 h5 u gen[OF h1 h2 h3 h4 h5 h6 u])
qed

text \<open>
  C2, as the code has it.  On an open board with an acting member that is admin, editor or
  commenter, the check of line 184 is \<^verbatim>\<open>HasPermissionToTeam\<close> on the id of the mentioned
  user, the team of the event and \<^verbatim>\<open>PermissionViewTeam\<close>.  When it fails, the permission
  error of line 185 is returned, and the lookup of the user and this check are all that
  happened: nothing is saved, broadcast or delivered.
\<close>

theorem team_check_is_on_mentioned_user:
  assumes "ev_ModifiedBy evt = Some m"
    and "SchemeAdmin m \<or> SchemeEditor m \<or> SchemeCommenter m"
    and "ev_Board evt = Some board" and "Board_Type board = BoardTypeOpen"
    and "UserByUsername (delivery b) username s = (Inr user, s1)"
    and "HasPermissionToTeam (permissions b) (User_Id user) (ev_TeamID evt) PermissionViewTeam s1
           = (False, s2)"
  shows "deliverMentionNotification b username x evt (s, tr)
           = (Returns ([], Some (Errorf (UserID m @ '' cannot mention non-team member ''
                                          @ User_Id user @ '' : '') ErrMentionPermission)),
              (s2, tr @ [EUserByUsername username,
                         EHasPermissionToTeam (User_Id user) (ev_TeamID evt) PermissionViewTeam]))
         \<and> errors_Is (Errorf (UserID m @ '' cannot mention non-team member ''
                                 @ User_Id user @ '' : '') ErrMentionPermission) ErrMentionPermission"
  using assms by (auto simp add: deliverMentionNotification_def openBoardRules_def call_defs)

theorem team_check_is_on_mentioned_user_witness:
  "ev_ModifiedBy (demoEvent BoardTypeOpen (Some editorBob) TypeText ''@carol'' None) = Some editorBob
   \<and> (SchemeAdmin editorBob \<or> SchemeEditor editorBob \<or> SchemeCommenter editorBob)
   \<and> UserByUsername (delivery (demoBackend memStore None [goodListener])) ''carol'' [] = (Inr carol, [])
   \<and> HasPermissionToTeam (permissions (demoBackend memStore None [goodListener])) (User_Id carol)
        (ev_TeamID (demoEvent BoardTypeOpen (Some editorBob) TypeText ''@carol'' None))
        PermissionViewTeam [] = (False, [])
   \<and> deliverMentionNotification (demoBackend memStore None [goodListener]) ''carol'' ''hi''
        (demoEvent BoardTypeOpen (Some editorBob) TypeText ''@carol'' None) ([], [])
      = (Returns ([], Some (Errorf (UserID editorBob @ '' cannot mention non-team member ''
                                     @ User_Id carol @ '' : '') ErrMentionPermission)),
         ([], [] @ [EUserByUsername ''carol'',
                    EHasPermissionToTeam (User_Id carol)
                      (ev_TeamID (demoEvent BoardTypeOpen (Some editorBob) TypeText ''@carol'' None))
                      PermissionViewTeam]))"
proof -
  let ?B = "demoBackend memStore None [goodListener]"
  let ?evt = "demoEvent BoardTypeOpen (Some editorBob) TypeText ''@carol'' None"
  have h1: "ev_ModifiedBy ?evt = Some editorBob" by (simp add: demoEvent_def)
  have h2: "SchemeAdmin editorBob \<or> SchemeEditor editorBob \<or> SchemeCommenter editorBob"
    by (simp add: editorBob_def actor_def)
  have h3: "ev_Board ?evt = Some \<lparr>Board_ID = ''b1'', Board_TeamID = ''t1'', Board_Type = BoardTypeOpen\<rparr>"
    by (simp add: demoEvent_def)
  have h4: "Board_Type \<lparr>Board_ID = ''b1'', Board_TeamID = ''t1'', Board_Type = BoardTypeOpen\<rparr> = BoardTypeOpen"
    by simp
  have h5: "UserByUsername (delivery ?B) ''carol'' [] = (Inr carol, [])"
    by (simp add: demoBackend_def demoDelivery_def)
  have h6: "HasPermissionToTeam (permissions ?B) (User_Id carol) (ev_TeamID ?evt) PermissionViewTeam []
              = (False, [])"
    by (simp add: demoBackend_def demoPermissions_def carol_def)
  show ?thesis
    by (intro conjI h1 h2 h5 h6 team_check_is_on_mentioned_user[OF h1 h2 h3 h4 h5 h6, THEN conjunct1])
qed

text \<open>
  The claim C2 as it is written fails: the acting member \<open>u2\<close> may not view the team, and
  the mention of \<open>alice\<close>, who may, is delivered all the same.
\<close>

theorem team_check_on_actor_counterexample:
  "fst (HasPermissionToTeam (permissions (demoBackend memStore None [goodListener])) (UserID editorBob)
          (ev_TeamID (demoEvent BoardTypeOpen (Some editorBob) TypeText ''@alice'' None))
          PermissionViewTeam []) = False
   \<and> fst (deliverMentionNotification (demoBackend memStore None [goodListener]) ''alice'' ''hi''
            (demoEvent BoardTypeOpen (Some editorBob) TypeText ''@alice'' None) ([], []))
       = Returns (''u1'', None)
   \<and> filter isMentionDeliver
         (snd (snd (deliverMentionNotification (demoBackend memStore None [goodListener]) ''alice'' ''hi''
            (demoEvent BoardTypeOpen (Some editorBob) TypeText ''@alice'' None) ([], []))))
       = [EMentionDeliver alice ''hi'' (demoEvent BoardTypeOpen (Some editorBob) TypeText ''@alice'' None)]"
  by (simp add: eval_defs isMentionDeliver_def)

text \<open>
  C10.  On an open board with an acting member that is admin, editor or commenter, when the
  lookup of the membership returns a nil member with an error, whatever the error is,
  \<^verbatim>\<open>SaveMember\<close> is called next with the editor row.  What is returned is the wrapped error
  of \<^verbatim>\<open>SaveMember\<close>, or else what the delivery returns: the error of the lookup is in the
  log of the lookup only.
\<close>

theorem lookup_error_still_saves:
  assumes "ev_ModifiedBy evt = Some m"
    and "SchemeAdmin m \<or> SchemeEditor m \<or> SchemeCommenter m"
    and "ev_Board evt = Some board" and "Board_Type board = BoardTypeOpen"
    and "UserByUsername (delivery b) username s = (Inr user, s1)"
    and "HasPermissionToTeam (permissions b) (User_Id user) (ev_TeamID evt) PermissionViewTeam s1
           = (True, s2)"
    and "GetMemberForBoard (store b) (Board_ID board) (User_Id user) s2 = ((None, Some e), s3)"
    and "SaveMember (store b) (editorRow (User_Id user) (Board_ID board)) s3 = ((member', err'), s4)"
  shows "deliverMentionNotification b username x evt (s, tr)
           = (case err' of
                Some e' \<Rightarrow>
                  (Returns ([], Some (Errorf (''cannot add mentioned user '' @ User_Id user
                                               @ '' to board '' @ Board_ID board @ '': '') e')),
                   (s4, tr @ [EUserByUsername username,
                              EHasPermissionToTeam (User_Id user) (ev_TeamID evt) PermissionViewTeam,
                              EGetMemberForBoard (Board_ID board) (User_Id user) (None, Some e),
                              ESaveMember (editorRow (User_Id user) (Board_ID board)) (member', err')]))
              | None \<Rightarrow>
                  (case MentionDeliver (delivery b) user x evt
                          (BroadcastMemberChange (wsAdapter b) (ev_TeamID evt) (Board_ID board) member' s4) of
                     (r, s5) \<Rightarrow>
                       (r, (s5, tr @ [EUserByUsername username,
                                      EHasPermissionToTeam (User_Id user) (ev_TeamID evt) PermissionViewTeam,
                                      EGetMemberForBoard (Board_ID board) (User_Id user) (None, Some e),
                                      ESaveMember (editorRow (User_Id user) (Board_ID board)) (member', err'),
                                      ELog LvlDebug ''auto-added mentioned user to board'',
                                      EBroadcastMemberChange (ev_TeamID evt) (Board_ID board) member',
                                      EMentionDeliver user x evt]))))"
  using assms
  by (auto simp add: deliverMentionNotification_def openBoardRules_def addMentionedUserToBoard_def
        editorRow_def call_defs split: option.splits prod.splits)

theorem lookup_error_still_saves_witness:
  "\<not> Store_IsErrNotFound flakyStore (Some (External ''db down''))
   \<and> GetMemberForBoard (store (demoBackend flakyStore None [goodListener])) ''b1'' (User_Id alice) []
       = ((None, Some (External ''db down'')), [])
   \<and> fst (deliverMentionNotification (demoBackend flakyStore None [goodListener]) ''alice'' ''hi''
             (demoEvent BoardTypeOpen (Some editorBob) TypeText ''@alice'' None) ([], []))
       = Returns (''u1'', None)
   \<and> ESaveMember (editorRow ''u1'' ''b1'') (Some (editorRow ''u1'' ''b1''), None)
       \<in> set (snd (snd (deliverMentionNotification (demoBackend flakyStore None [goodListener]) ''alice'' ''hi''
             (demoEvent BoardTypeOpen (Some editorBob) TypeText ''@alice'' None) ([], []))))"
proof -
  let ?B = "demoBackend flakyStore None [goodListener]"
  let ?evt = "demoEvent BoardTypeOpen (Some editorBob) TypeText ''@alice'' None"
  let ?board = "\<lparr>Board_ID = ''b1'', Board_TeamID = ''t1'', Board_Type = BoardTypeOpen\<rparr>"
  have n: "\<not> Store_IsErrNotFound flakyStore (Some (External ''db down''))"
    by (simp add: flakyStore_def ErrNotFound_def)
  have h1: "ev_ModifiedBy ?evt = Some editorBob" by (simp add: demoEvent_def)
  have h2: "SchemeAdmin editorBob \<or> SchemeEditor editorBob \<or> SchemeCommenter editorBob"
    by (simp add: editorBob_def actor_def)
  have h3: "ev_Board ?evt = Some ?board" by (simp add: demoEvent_def)
  have h4: "Board_Type ?board = BoardTypeOpen" by simp
  have h5: "UserByUsername (delivery ?B) ''alice'' [] = (Inr alice, [])"
    by (simp add: demoBackend_def demoDelivery_def)
  have h6: "HasPermissionToTeam (permissions ?B) (User_Id alice) (ev_TeamID ?evt) PermissionViewTeam []
              = (True, [])"
    by (simp add: demoBackend_def demoPermissions_def alice_def)
  have h7: "GetMemberForBoard (store ?B) (Board_ID ?board) (User_Id alice) []
              = ((None, Some (External ''db down'')), [])"
    by (simp add: demoBackend_def flakyStore_def)
  have h8: "SaveMember (store ?B) (editorRow (User_Id alice) (Board_ID ?board)) []
              = ((Some (editorRow (User_Id alice) (Board_ID ?board)), None),
                 [editorRow (User_Id alice) (Board_ID ?board)])"
    by (simp add: demoBackend_def flakyStore_def)
  have g: "GetMemberForBoard (store ?B) ''b1'' (User_Id alice) [] = ((None, Some (External ''db down'')), [])"
    using h7 by simp
  have d: "deliverMentionNotification ?B ''alice'' ''hi'' ?evt ([], [])
           = (Returns (''u1'', None),
              ([editorRow ''u1'' ''b1''],
               [EUserByUsername ''alice'',
                EHasPermissionToTeam ''u1'' ''t1'' PermissionViewTeam,
                EGetMemberForBoard ''b1'' ''u1'' (None, Some (External ''db down'')),
                ESaveMember (editorRow ''u1'' ''b1'') (Some (editorRow ''u1'' ''b1''), None),
                ELog LvlDebug ''auto-added mentioned user to board'',
                EBroadcastMemberChange ''t1'' ''b1'' (Some (editorRow ''u1'' ''b1'')),
                EMentionDeliver alice ''hi'' ?evt]))"
    using lookup_error_still_saves[OF h1 h2 h3 h4 h5 h6 h7 h8, of "''hi''" "[]"]
    by (simp add: demoBackend_def demoDelivery_def demoPlugin_def demoAdapter_def demoEvent_def
          PluginDelivery_MentionDeliver_def editorBob_def actor_def alice_def)
  show ?thesis using n g d by simp
qed

subsection \<open>Listeners\<close>

text \<open>
  C1 at a concrete event.  \<^verbatim>\<open>CreatePost\<close> fails, so \<^verbatim>\<open>PluginDelivery.MentionDeliver\<close> returns
  the id of the mentioned user together with the error (line 33).  \<^verbatim>\<open>BlockChanged\<close> collects
  the error, and because the id is not empty it goes on to call the listener.
\<close>

theorem failed_post_still_notifies:
  "fst (PluginDelivery_MentionDeliver (demoPlugin (Some (External ''post failed''))) alice ''@alice''
          (demoEvent BoardTypeOpen (Some editorBob) TypeText ''@alice'' None) [])
     = Returns (''u1'', Some (External ''post failed''))
   \<and> fst (BlockChanged demoPackage (demoBackend memStore (Some (External ''post failed'')) [goodListener])
            (demoEvent BoardTypeOpen (Some editorBob) TypeText ''@alice'' None) ([], []))
     = Returns (Some [Errorf ''cannot deliver notification for @alice: '' (External ''post failed'')])
   \<and> filter isOnMention
         (snd (snd (BlockChanged demoPackage (demoBackend memStore (Some (External ''post failed'')) [goodListener])
            (demoEvent BoardTypeOpen (Some editorBob) TypeText ''@alice'' None) ([], []))))
     = [EOnMention 0 ''u1'' (demoEvent BoardTypeOpen (Some editorBob) TypeText ''@alice'' None)]"
  by (simp add: eval_defs isOnMention_def)

lemma callListeners_OnMention:
  "filter isOnMention (snd (callListeners i ls userID evt (s, tr)))
     = filter isOnMention tr @ map (\<lambda>k. EOnMention k userID evt) [i..<i + length ls]"
proof (induction ls arbitrary: i s tr)
  case Nil
  show ?case by simp
next
  case (Cons l ls)
  obtain s1 e1 where l0: "safeCallListener i l userID evt (s, []) = (s1, e1)"
    by (metis prod.exhaust)
  have e1: "filter isOnMention e1 = [EOnMention i userID evt]"
    using l0 by (auto simp add: safeCallListener_def call_defs isOnMention_def
                   split: prod.splits outcome.splits)
  have l: "safeCallListener i l userID evt (s, tr) = (s1, tr @ e1)"
    using safeCallListener_log[of i l userID evt s tr] l0 by simp
  have u: "[i..<i + length (l # ls)] = i # [Suc i..<Suc i + length ls]"
    by (subst upt_rec) simp
  show ?case
    unfolding u using l e1 Cons.IH[of "Suc i" s1 "tr @ e1"] by simp
qed

lemma deliverMentionNotification_listeners:
  "deliverMentionNotification (b\<lparr>listeners := ls\<rparr>) u x evt w = deliverMentionNotification b u x evt w"
  by (simp add: rule_defs call_defs
        cong: sum.case_cong option.case_cong prod.case_cong bool.case_cong if_cong)

lemma safeCallListener_calm:
  "fst (safeCallListener i (calm l) userID evt (s, tr')) = fst (safeCallListener i l userID evt (s, tr))
   \<and> (filter (\<lambda>e. \<not> isErrorLog e) tr' = filter (\<lambda>e. \<not> isErrorLog e) tr \<longrightarrow>
        filter (\<lambda>e. \<not> isErrorLog e) (snd (safeCallListener i (calm l) userID evt (s, tr')))
          = filter (\<lambda>e. \<not> isErrorLog e) (snd (safeCallListener i l userID evt (s, tr))))"
  by (auto simp add: safeCallListener_def calm_def call_defs isErrorLog_def split: prod.splits outcome.splits)

lemma callListeners_calm:
  assumes "filter (\<lambda>e. \<not> isErrorLog e) tr' = filter (\<lambda>e. \<not> isErrorLog e) tr"
  shows "fst (callListeners i (map calm ls) userID evt (s, tr')) = fst (callListeners i ls userID evt (s, tr))
   \<and> filter (\<lambda>e. \<not> isErrorLog e) (snd (callListeners i (map calm ls) userID evt (s, tr')))
        = filter (\<lambda>e. \<not> isErrorLog e) (snd (callListeners i ls userID evt (s, tr)))"
  using assms
proof (induction ls arbitrary: i s tr tr')
  case Nil
  then show ?case by simp
next
  case (Cons l ls)
  obtain s1 t1 where a: "safeCallListener i l userID evt (s, tr) = (s1, t1)" by (metis prod.exhaust)
  obtain s1' t1' where b: "safeCallListener i (calm l) userID evt (s, tr') = (s1', t1')" by (metis prod.exhaust)
  have "s1' = s1" and "filter (\<lambda>e. \<not> isErrorLog e) t1' = filter (\<lambda>e. \<not> isErrorLog e) t1"
    using safeCallListener_calm[of i l userID evt s tr' tr] a b Cons.prems by auto
  then show ?case using a b Cons.IH[of t1' t1 "Suc i" s1] by simp
qed

lemma mentionLoop_calm:
  assumes "filter (\<lambda>e. \<not> isErrorLog e) tr' = filter (\<lambda>e. \<not> isErrorLog e) tr"
  shows "fst (mentionLoop pkg (b\<lparr>listeners := ls'\<rparr>) evt (map calm ls) old ms merr (s, tr'))
           = fst (mentionLoop pkg b evt ls old ms merr (s, tr))
       \<and> fst (snd (mentionLoop pkg (b\<lparr>listeners := ls'\<rparr>) evt (map calm ls) old ms merr (s, tr')))
           = fst (snd (mentionLoop pkg b evt ls old ms merr (s, tr)))
       \<and> filter (\<lambda>e. \<not> isErrorLog e)
            (snd (snd (mentionLoop pkg (b\<lparr>listeners := ls'\<rparr>) evt (map calm ls) old ms merr (s, tr'))))
           = filter (\<lambda>e. \<not> isErrorLog e) (snd (snd (mentionLoop pkg b evt ls old ms merr (s, tr))))"
  using assms
proof (induction ms arbitrary: merr s tr tr')
  case Nil
  then show ?case by simp
next
  case (Cons u ms)
  show ?case
  proof (cases "u \<in> set old")
    case True
    then show ?thesis using Cons.IH[OF Cons.prems] by simp
  next
    case False
    let ?x = "extractText pkg (Block_Title (ev_BlockChanged evt)) u (newLimits pkg)"
    obtain r s1 e1 where d0: "deliverMentionNotification b u ?x evt (s, []) = (r, (s1, e1))"
      by (metis prod.exhaust)
    have d: "deliverMentionNotification b u ?x evt (s, tr) = (r, (s1, tr @ e1))"
      using deliverMentionNotification_log[of b u ?x evt s tr] d0 by simp
    have d': "deliverMentionNotification (b\<lparr>listeners := ls'\<rparr>) u ?x evt (s, tr') = (r, (s1, tr' @ e1))"
      using deliverMentionNotification_log[of b u ?x evt s tr'] d0
      by (simp add: deliverMentionNotification_listeners)
    have f1: "filter (\<lambda>e. \<not> isErrorLog e) (tr' @ e1) = filter (\<lambda>e. \<not> isErrorLog e) (tr @ e1)"
      using Cons.prems by simp
    show ?thesis
    proof (cases r)
      case (Panics p)
      then show ?thesis using False d d' f1 by simp
    next
      case (Returns ur)
      obtain userID err where ur: "ur = (userID, err)" by (cases ur)
      show ?thesis
      proof (cases "userID = []")
        case True
        then show ?thesis using False d d' Returns ur Cons.IH[OF f1] by simp
      next
        case nonempty: False
        let ?l = "ELog LvlDebug ''Mention notification delivered''"
        obtain s2 t2 where c: "callListeners 0 ls userID evt (s1, tr @ e1 @ [?l]) = (s2, t2)"
          by (metis prod.exhaust)
        obtain s2' t2' where c': "callListeners 0 (map calm ls) userID evt (s1, tr' @ e1 @ [?l]) = (s2', t2')"
          by (metis prod.exhaust)
        have f2: "filter (\<lambda>e. \<not> isErrorLog e) (tr' @ e1 @ [?l]) = filter (\<lambda>e. \<not> isErrorLog e) (tr @ e1 @ [?l])"
          using Cons.prems by simp
        have "s2' = s2" and f3: "filter (\<lambda>e. \<not> isErrorLog e) t2' = filter (\<lambda>e. \<not> isErrorLog e) t2"
          using callListeners_calm[OF f2, of 0 ls userID evt s1] c c' by auto
        then show ?thesis using False d d' Returns ur nonempty c c' Cons.IH[OF f3]
          by (simp add: call_defs)
      qed
    qed
  qed
qed

lemma safeCallListener_state:
  "fst (safeCallListener i l userID evt (s, tr)) = snd (l userID evt s)"
  by (auto simp add: safeCallListener_def call_defs split: prod.splits outcome.splits)

lemma callListeners_state:
  "fst (callListeners i ls userID evt (s, tr)) = fanOutState ls userID evt s"
proof (induction ls arbitrary: i s tr)
  case Nil
  show ?case by (simp add: fanOutState_def)
next
  case (Cons l ls)
  obtain s1 t1 where a: "safeCallListener i l userID evt (s, tr) = (s1, t1)" by (metis prod.exhaust)
  have "s1 = snd (l userID evt s)" using safeCallListener_state[of i l userID evt s tr] a by simp
  then show ?case using a Cons.IH[of "Suc i" s1 t1] by (simp add: fanOutState_def)
qed

lemma addMentionedUserToBoard_OnMention:
  "filter isOnMention (snd (snd (addMentionedUserToBoard b u board evt (s, [])))) = []"
  by (auto simp add: addMentionedUserToBoard_def call_defs Let_def isOnMention_def
        split: prod.splits option.splits)

lemma openBoardRules_OnMention:
  "filter isOnMention (snd (snd (openBoardRules b u m board evt (s, [])))) = []"
  by (auto simp add: openBoardRules_def addMentionedUserToBoard_log addMentionedUserToBoard_OnMention
        call_defs isOnMention_def split: prod.splits bool.splits)

lemma privateBoardRules_OnMention:
  "filter isOnMention (snd (snd (privateBoardRules b u m board evt (s, [])))) = []"
  by (auto simp add: privateBoardRules_def call_defs isOnMention_def split: prod.splits bool.splits)

lemma deliverMentionNotification_OnMention:
  "filter isOnMention (snd (snd (deliverMentionNotification b u x evt (s, [])))) = []"
  by (auto simp add: deliverMentionNotification_def openBoardRules_log privateBoardRules_log
        openBoardRules_OnMention privateBoardRules_OnMention call_defs isOnMention_def
        split: prod.splits bool.splits sum.splits option.splits)

lemma fanOuts_Nil: "fanOuts n evt [] = []"
  by (simp add: fanOuts_def)

lemma fanOuts_Cons:
  "fanOuts n evt ((u, userID, err) # rs)
     = (if userID = [] then [] else map (\<lambda>k. EOnMention k userID evt) [0..<n]) @ fanOuts n evt rs"
  by (simp add: fanOuts_def)

lemma mentionLoop_fanOut:
  "fst (snd (mentionLoop pkg b evt (listeners b) old ms merr (s, tr)))
     = afterMentions pkg b evt (filter (\<lambda>u. u \<notin> set old) ms) s
   \<and> filter isOnMention (snd (snd (mentionLoop pkg b evt (listeners b) old ms merr (s, tr))))
     = filter isOnMention tr
       @ fanOuts (length (listeners b)) evt
           (mentionResults pkg b evt (filter (\<lambda>u. u \<notin> set old) ms) (s, tr))"
proof (induction ms arbitrary: merr s tr)
  case Nil
  show ?case by (simp add: fanOuts_Nil)
next
  case (Cons u ms)
  show ?case
  proof (cases "u \<in> set old")
    case True
    then show ?thesis using Cons.IH[of merr s tr] by simp
  next
    case False
    let ?x = "extractText pkg (Block_Title (ev_BlockChanged evt)) u (newLimits pkg)"
    let ?l = "ELog LvlDebug ''Mention notification delivered''"
    obtain r s1 e1 where d0: "deliverMentionNotification b u ?x evt (s, []) = (r, (s1, e1))"
      by (metis prod.exhaust)
    have d: "deliverMentionNotification b u ?x evt (s, tr) = (r, (s1, tr @ e1))"
      using deliverMentionNotification_log[of b u ?x evt s tr] d0 by simp
    have e1: "filter isOnMention e1 = []"
      using deliverMentionNotification_OnMention[of b u ?x evt s] d0 by simp
    show ?thesis
    proof (cases r)
      case (Panics p)
      then show ?thesis using False d d0 e1 by (simp add: fanOuts_Nil)
    next
      case (Returns ur)
      obtain userID err where ur: "ur = (userID, err)" by (cases ur)
      let ?m = "case err of None \<Rightarrow> merr | Some e \<Rightarrow> merror_Append merr
                  (Errorf (''cannot deliver notification for @'' @ u @ '': '') e)"
      show ?thesis
      proof (cases "userID = []")
        case True
        then show ?thesis
          using False d d0 e1 Returns ur Cons.IH[of ?m s1 "tr @ e1"]
          by (simp add: fanOuts_Cons)
      next
        case nonempty: False
        obtain s2 t2 where c: "callListeners 0 (listeners b) userID evt (s1, tr @ e1 @ [?l]) = (s2, t2)"
          by (metis prod.exhaust)
        have s2: "s2 = fanOutState (listeners b) userID evt s1"
          using callListeners_state[of 0 "listeners b" userID evt s1 "tr @ e1 @ [?l]"] c by simp
        have t2: "filter isOnMention t2
                    = filter isOnMention tr
                      @ map (\<lambda>k. EOnMention k userID evt) [0..<length (listeners b)]"
          using callListeners_OnMention[of 0 "listeners b" userID evt s1 "tr @ e1 @ [?l]"] c e1
          by (simp add: isOnMention_def)
        show ?thesis
          using False d d0 Returns ur nonempty c s2 t2 Cons.IH[of ?m s2 t2]
          by (simp add: fanOuts_Cons call_defs)
      qed
    qed
  qed
qed

lemma BlockChanged_fanOut:
  assumes "relevant evt"
  shows "fst (snd (BlockChanged pkg b evt (s, tr))) = afterMentions pkg b evt (newOnly pkg evt) s
   \<and> filter isOnMention (snd (snd (BlockChanged pkg b evt (s, tr))))
     = filter isOnMention tr
       @ fanOuts (length (listeners b)) evt (mentionResults pkg b evt (newOnly pkg evt) (s, tr))"
proof (cases "extractMentions pkg (Some (ev_BlockChanged evt)) = []")
  case True
  then have n: "newOnly pkg evt = []" by (simp add: newOnly_def)
  show ?thesis using BlockChanged_nothing_new[OF n, of b "(s, tr)"] n by (simp add: fanOuts_Nil)
next
  case False
  let ?old = "extractMentions pkg (ev_BlockOld evt)"
  let ?new = "extractMentions pkg (Some (ev_BlockChanged evt))"
  have "snd (BlockChanged pkg b evt (s, tr)) = snd (mentionLoop pkg b evt (listeners b) ?old ?new merror_New (s, tr))"
    using False assms
    by (cases "mentionLoop pkg b evt (listeners b) ?old ?new merror_New (s, tr)")
       (auto simp add: BlockChanged_def relevant_def Let_def split: outcome.splits)
  then show ?thesis
    using mentionLoop_fanOut[of pkg b evt ?old ?new merror_New s tr] by (simp add: newOnly_def)
qed

text \<open>
  C8.  A fan-out applies every listener of the snapshot, in order, to the state that the
  one before it left, whichever of them panic, and logs one \<^verbatim>\<open>OnMention\<close> for each place
  \<open>i, \<dots>, i + length ls - 1\<close>.  For an event that passes the checks of lines 96 to 108,
  the state that \<^verbatim>\<open>BlockChanged\<close> leaves is the state after the deliveries and, for each
  delivery that gave a user id, after all listeners of the backend; its log has, for each
  such delivery, one \<^verbatim>\<open>OnMention\<close> with that user id and the event for each listener.
  And \<^verbatim>\<open>BlockChanged\<close> with the listeners as they are and \<^verbatim>\<open>BlockChanged\<close> with listeners that
  do the same to the world and never panic return the same value, leave the collaborators
  in the same state and make the same calls; the logs differ by the error lines of the
  recovered panics only.
\<close>

theorem listener_panic_is_isolated:
  "fst (callListeners i ls userID evt (s, tr)) = fanOutState ls userID evt s
   \<and> filter isOnMention (snd (callListeners i ls userID evt (s, tr)))
       = filter isOnMention tr @ map (\<lambda>k. EOnMention k userID evt) [i..<i + length ls]
   \<and> (relevant evt \<longrightarrow>
        fst (snd (BlockChanged pkg b evt (s, tr))) = afterMentions pkg b evt (newOnly pkg evt) s
        \<and> filter isOnMention (snd (snd (BlockChanged pkg b evt (s, tr))))
            = filter isOnMention tr
              @ fanOuts (length (listeners b)) evt (mentionResults pkg b evt (newOnly pkg evt) (s, tr)))
   \<and> fst (BlockChanged pkg (b\<lparr>listeners := map calm (listeners b)\<rparr>) evt w)
       = fst (BlockChanged pkg b evt w)
   \<and> fst (snd (BlockChanged pkg (b\<lparr>listeners := map calm (listeners b)\<rparr>) evt w))
       = fst (snd (BlockChanged pkg b evt w))
   \<and> filter (\<lambda>e. \<not> isErrorLog e) (snd (snd (BlockChanged pkg (b\<lparr>listeners := map calm (listeners b)\<rparr>) evt w)))
       = filter (\<lambda>e. \<not> isErrorLog e) (snd (snd (BlockChanged pkg b evt w)))"
proof -
  obtain s0 tr0 where w: "w = (s0, tr0)" by (cases w)
  let ?b' = "b\<lparr>listeners := map calm (listeners b)\<rparr>"
  let ?old = "extractMentions pkg (ev_BlockOld evt)"
  let ?new = "extractMentions pkg (Some (ev_BlockChanged evt))"
  have m: "fst (mentionLoop pkg ?b' evt (map calm (listeners b)) ?old ?new merror_New (s0, tr0))
           = fst (mentionLoop pkg b evt (listeners b) ?old ?new merror_New (s0, tr0))
       \<and> fst (snd (mentionLoop pkg ?b' evt (map calm (listeners b)) ?old ?new merror_New (s0, tr0)))
           = fst (snd (mentionLoop pkg b evt (listeners b) ?old ?new merror_New (s0, tr0)))
       \<and> filter (\<lambda>e. \<not> isErrorLog e)
            (snd (snd (mentionLoop pkg ?b' evt (map calm (listeners b)) ?old ?new merror_New (s0, tr0))))
           = filter (\<lambda>e. \<not> isErrorLog e)
               (snd (snd (mentionLoop pkg b evt (listeners b) ?old ?new merror_New (s0, tr0))))"
    by (rule mentionLoop_calm) simp
  have c: "fst (BlockChanged pkg ?b' evt w) = fst (BlockChanged pkg b evt w)
      \<and> fst (snd (BlockChanged pkg ?b' evt w)) = fst (snd (BlockChanged pkg b evt w))
      \<and> filter (\<lambda>e. \<not> isErrorLog e) (snd (snd (BlockChanged pkg ?b' evt w)))
           = filter (\<lambda>e. \<not> isErrorLog e) (snd (snd (BlockChanged pkg b evt w)))"
    using m w
    by (cases "mentionLoop pkg ?b' evt (map calm (listeners b)) ?old ?new merror_New (s0, tr0)";
        cases "mentionLoop pkg b evt (listeners b) ?old ?new merror_New (s0, tr0)")
       (auto simp add: BlockChanged_def Let_def split: outcome.splits)
  show ?thesis
    using c callListeners_OnMention[of i ls userID evt s tr] callListeners_state[of i ls userID evt s tr]
      BlockChanged_fanOut[of evt pkg b s tr]
    by simp
qed

text \<open>
  Five listeners, the third of which panics after it has enrolled the user on its board:
  all five are applied and logged, and \<^verbatim>\<open>BlockChanged\<close> returns nil.
\<close>

theorem listener_panic_is_isolated_witness:
  "relevant (demoEvent BoardTypeOpen (Some editorBob) TypeText ''@alice'' None)
   \<and> BlockChanged demoPackage
        (demoBackend memStore None
           [subscribeListener ''l0'', subscribeListener ''l1'', crashingListener ''l2'',
            subscribeListener ''l3'', subscribeListener ''l4''])
        (demoEvent BoardTypeOpen (Some editorBob) TypeText ''@alice'' None) ([], [])
      = (Returns None,
         ([editorRow ''u1'' ''l4'', editorRow ''u1'' ''l3'', editorRow ''u1'' ''l2'',
           editorRow ''u1'' ''l1'', editorRow ''u1'' ''l0'', editorRow ''u1'' ''b1''],
          snd (snd (BlockChanged demoPackage
            (demoBackend memStore None
               [subscribeListener ''l0'', subscribeListener ''l1'', crashingListener ''l2'',
                subscribeListener ''l3'', subscribeListener ''l4''])
            (demoEvent BoardTypeOpen (Some editorBob) TypeText ''@alice'' None) ([], [])))))
   \<and> filter isOnMention (snd (snd (BlockChanged demoPackage
        (demoBackend memStore None
           [subscribeListener ''l0'', subscribeListener ''l1'', crashingListener ''l2'',
            subscribeListener ''l3'', subscribeListener ''l4''])
        (demoEvent BoardTypeOpen (Some editorBob) TypeText ''@alice'' None) ([], []))))
      = [EOnMention 0 ''u1'' (demoEvent BoardTypeOpen (Some editorBob) TypeText ''@alice'' None),
         EOnMention 1 ''u1'' (demoEvent BoardTypeOpen (Some editorBob) TypeText ''@alice'' None),
         EOnMention 2 ''u1'' (demoEvent BoardTypeOpen (Some editorBob) TypeText ''@alice'' None),
         EOnMention 3 ''u1'' (demoEvent BoardTypeOpen (Some editorBob) TypeText ''@alice'' None),
         EOnMention 4 ''u1'' (demoEvent BoardTypeOpen (Some editorBob) TypeText ''@alice'' None)]"
proof -
  let ?ls = "[subscribeListener ''l0'', subscribeListener ''l1'', crashingListener ''l2'',
              subscribeListener ''l3'', subscribeListener ''l4'']"
  let ?B = "demoBackend memStore None ?ls"
  let ?E = "demoEvent BoardTypeOpen (Some editorBob) TypeText ''@alice'' None"
  have h: "relevant ?E" by (simp add: relevant_def demoEvent_def)
  have g: "fst (snd (BlockChanged demoPackage ?B ?E ([], [])))
             = afterMentions demoPackage ?B ?E (newOnly demoPackage ?E) []
         \<and> filter isOnMention (snd (snd (BlockChanged demoPackage ?B ?E ([], []))))
             = filter isOnMention []
               @ fanOuts (length (listeners ?B)) ?E
                   (mentionResults demoPackage ?B ?E (newOnly demoPackage ?E) ([], []))"
    using listener_panic_is_isolated[where evt = ?E and pkg = demoPackage and b = ?B
            and s = "[]" and tr = "[]" and i = 0 and ls = "[]" and userID = "[]" and w = "([], [])"] h
    by (elim conjE impE) auto
  have st: "afterMentions demoPackage ?B ?E (newOnly demoPackage ?E) []
              = [editorRow ''u1'' ''l4'', editorRow ''u1'' ''l3'', editorRow ''u1'' ''l2'',
                 editorRow ''u1'' ''l1'', editorRow ''u1'' ''l0'', editorRow ''u1'' ''b1'']"
    by (simp add: eval_defs newOnly_def fanOutState_def subscribeListener_def crashingListener_def
          editorRow_def)
  have lg: "fanOuts (length (listeners ?B)) ?E
              (mentionResults demoPackage ?B ?E (newOnly demoPackage ?E) ([], []))
            = [EOnMention 0 ''u1'' ?E, EOnMention 1 ''u1'' ?E, EOnMention 2 ''u1'' ?E,
               EOnMention 3 ''u1'' ?E, EOnMention 4 ''u1'' ?E]"
    by (simp add: eval_defs newOnly_def fanOuts_def subscribeListener_def crashingListener_def upt_rec)
  have r: "fst (BlockChanged demoPackage ?B ?E ([], [])) = Returns None"
    by (simp add: eval_defs subscribeListener_def crashingListener_def)
  have "BlockChanged demoPackage ?B ?E ([], [])
          = (Returns None,
             ([editorRow ''u1'' ''l4'', editorRow ''u1'' ''l3'', editorRow ''u1'' ''l2'',
               editorRow ''u1'' ''l1'', editorRow ''u1'' ''l0'', editorRow ''u1'' ''b1''],
              snd (snd (BlockChanged demoPackage ?B ?E ([], [])))))"
    using r g st by (metis prod.collapse)
  then show ?thesis using h g lg by simp
qed

subsection \<open>Failures of one call\<close>


lemma failures_append: "failures (xs @ ys) = failures xs @ failures ys"
  by (simp add: failures_def)







subsection \<open>Enrolment\<close>










subsection \<open>Counting broadcasts\<close>

































end
